theory Spec2Isabelle
  imports Main
begin

section \<open>The recording hook \<open>useMediaRecorder\<close> (src/use-media-recorder.ts)\<close>

text \<open>
  The hook is a function that React calls once per render.  Each call declares the
  nested functions \<open>acquireMediaStream\<close>, \<open>handleStop\<close>, \<open>startRecording\<close>, ... afresh;
  they close over the arguments of that call and share, across calls, the three
  \<open>useRef\<close> cells and the \<open>useState\<close> slots.  The embedding is state passing:

  \<^item> \<open>hook_state\<close> holds the ref cells, the state slots, the store of recorder objects the
    hook has created, and a trace of the calls the hook makes to the outside (browser
    methods, the caller's callbacks) and of its \<open>setStatus\<close> calls;
  \<^item> a \<open>closure\<close> names the call of \<open>useMediaRecorder\<close> a nested function belongs to: the
    number of the render, the arguments it was given and the value of the \<open>error\<close> slot that
    \<open>useState\<close> returned to it, which is the \<open>error\<close> the nested functions read.  Two renders
    give two different function objects \<open>handleStop\<close>, which is what \<open>addEventListener\<close> and
    \<open>removeEventListener\<close> compare;
  \<^item> an \<open>env\<close> gives what the browser answers during one call: the global \<open>window\<close> and the
    outcome of each browser method that can fail;
  \<^item> an \<open>async\<close> function is run to its end in one step, its rejection returned as a value.
    A value given to a setter is in the slot at once; a callback of the caller is recorded
    in the trace and returns normally;
  \<^item> a notification of a recorder is \<open>dispatchEvent\<close>: it calls the listeners the recorder
    holds for that event, in the order they were added.

  Values have the types the source declares: \<open>customMediaStream\<close> is a \<open>MediaStream\<close> (so
  \<open>instanceof MediaStream\<close> holds when it is given), a thrown value is an object (so an
  error is truthy).  \<open>muteAudio\<close> and the \<open>liveStream\<close> getter are not modelled: no property below
  reads what they change.
\<close>

subsection \<open>Data\<close>

datatype MediaRecorderStatus =
  Idle | Acquiring_media | Ready | Recording | Paused | Stopping | Stopped | Failed

text \<open>A thrown or rejected value, and the \<open>Event\<close> given to an error listener: an object.\<close>
type_synonym js_error = string

record Blob =
  blob_bytes :: "nat list"
  blob_type :: string

definition blob_size :: "Blob \<Rightarrow> nat" where
  "blob_size b = length (blob_bytes b)"

text \<open>
  A member of an options object: no own property, an own property that is \<open>undefined\<close>, or an
  own property with a value.
\<close>
datatype 'a member = Absent | Undefined_member | Member 'a

record BlobPropertyBag =
  bag_type :: "string member"
  bag_endings :: "string member"

datatype track_kind = Audio | Video

record MediaStreamTrack =
  track_id :: nat
  kind :: track_kind

record MediaStream =
  tracks :: "MediaStreamTrack list"

text \<open>
  The \<open>audio\<close> and \<open>video\<close> members of \<open>MediaStreamConstraints\<close>: absent, a boolean, or a
  \<open>MediaTrackConstraints\<close> object, of which the code reads the keys only.
\<close>
datatype track_constraints = Undefined | Boolean bool | Object "string list"

record MediaStreamConstraints =
  audio :: track_constraints
  video :: track_constraints

record MediaRecorderOptions =
  mimeType :: "string option"

record MediaRecorder_static =
  isTypeSupported :: "string \<Rightarrow> bool"

record MediaDevices =
  getDisplayMedia_defined :: bool
  getSupportedConstraints :: "(string \<rightharpoonup> bool) option"

record Window =
  MediaRecorder_ctor :: "MediaRecorder_static option"
  mediaDevices :: "MediaDevices option"

text \<open>
  \<open>UseMediaRecorderArgs\<close>.  A callback member says whether the caller supplied it;
  \<open>windowOverride\<close> is what the supplied function returns.
\<close>
record UseMediaRecorderArgs =
  mediaStreamConstraints :: MediaStreamConstraints
  blobOptions :: "BlobPropertyBag option"
  recordScreen :: bool
  customMediaStream :: "MediaStream option"
  onStart :: bool
  onStop :: bool
  onDataAvailable :: bool
  onError :: bool
  mediaRecorderOptions :: "MediaRecorderOptions option"
  windowOverride :: "Window option"

record closure =
  render :: nat
  props :: UseMediaRecorderArgs
  seen_error :: "js_error option"

text \<open>
  The three listener functions, each with the closure of the render that declared it.  Two of
  them are the same function object when they are the same function of the same render.
\<close>
datatype handler = HandleDataAvailable closure | HandleStop closure | HandleError closure

fun same_function :: "handler \<Rightarrow> handler \<Rightarrow> bool" where
  "same_function (HandleDataAvailable c) (HandleDataAvailable c') = (render c = render c')"
| "same_function (HandleStop c) (HandleStop c') = (render c = render c')"
| "same_function (HandleError c) (HandleError c') = (render c = render c')"
| "same_function _ _ = False"

text \<open>The event a recorder gives to its listeners.\<close>
datatype event = BlobEvent Blob | StopEvent | ErrorEvent js_error

fun event_type :: "event \<Rightarrow> string" where
  "event_type (BlobEvent b) = ''dataavailable''"
| "event_type StopEvent = ''stop''"
| "event_type (ErrorEvent e) = ''error''"

fun event_object :: "event \<Rightarrow> js_error" where
  "event_object (ErrorEvent e) = e"
| "event_object StopEvent = ''stop''"
| "event_object (BlobEvent b) = ''dataavailable''"

datatype RecordingState = Inactive | Rec_recording | Rec_paused

record MediaRecorder =
  rec_state :: RecordingState
  rec_listeners :: "(string \<times> handler) list"
  rec_stream :: MediaStream

datatype effect =
    SetStatus MediaRecorderStatus
  | GetUserMedia MediaStreamConstraints
  | GetDisplayMedia MediaStreamConstraints
  | TrackStop MediaStreamTrack
  | RecorderStart nat "nat option"
  | RecorderPause nat
  | RecorderResume nat
  | RecorderStop nat
  | OnStart
  | OnStop "Blob option" string
  | OnDataAvailable Blob
  | OnError js_error

record hook_state =
  windowRef :: "Window option"
  mediaChunks :: "Blob list"
  mediaStream :: "MediaStream option"
  mediaRecorder :: "nat option"
  browserSupportError :: "string option"
  error :: "js_error option"
  status :: MediaRecorderStatus
  activeMediaRecorder :: "nat option"
  mediaBlob :: "Blob option"
  isAudioMuted :: bool
  recorders :: "nat \<rightharpoonup> MediaRecorder"
  next_recorder :: nat
  trace :: "effect list"

record env =
  window :: "Window option"
  getUserMedia_result :: "js_error + MediaStream"
  getDisplayMedia_result :: "js_error + MediaStream"
  construct_throws :: "js_error option"
  start_throws :: "js_error option"

text \<open>The values the \<open>useRef\<close> and \<open>useState\<close> calls start from (lines 64 and 79 to 91).\<close>
definition initial_state :: hook_state where
  "initial_state = \<lparr> windowRef = None, mediaChunks = [], mediaStream = None,
     mediaRecorder = None, browserSupportError = None, error = None, status = Idle,
     activeMediaRecorder = None, mediaBlob = None, isAudioMuted = False,
     recorders = Map.empty, next_recorder = 0, trace = [] \<rparr>"

subsection \<open>Effects\<close>

definition emit :: "effect \<Rightarrow> hook_state \<Rightarrow> hook_state" where
  "emit e s = s\<lparr>trace := trace s @ [e]\<rparr>"

definition setStatus :: "MediaRecorderStatus \<Rightarrow> hook_state \<Rightarrow> hook_state" where
  "setStatus st s = emit (SetStatus st) (s\<lparr>status := st\<rparr>)"

text \<open>The optional call \<open>f?.(x)\<close> of a callback of the caller.\<close>
definition optional_call :: "bool \<Rightarrow> effect \<Rightarrow> hook_state \<Rightarrow> hook_state" where
  "optional_call supplied e s = (if supplied then emit e s else s)"

text \<open>Which effects are calls of the caller's callbacks, and which are acquisition requests.\<close>
fun is_callback :: "effect \<Rightarrow> bool" where
  "is_callback OnStart = True"
| "is_callback (OnStop b m) = True"
| "is_callback (OnDataAvailable b) = True"
| "is_callback (OnError e) = True"
| "is_callback _ = False"

fun is_acquisition :: "effect \<Rightarrow> bool" where
  "is_acquisition (GetUserMedia c) = True"
| "is_acquisition (GetDisplayMedia c) = True"
| "is_acquisition _ = False"

subsection \<open>Browser objects\<close>

text \<open>
  \<open>new Blob(parts, bag)\<close> on parts that are blobs: their bytes in order.  The constructor
  takes the \<open>type\<close> member, the empty string when it is absent or \<open>undefined\<close>, replaces it by
  the empty string when it has a character outside U+0020 to U+007E, and puts it in ASCII lower
  case.  The \<open>type\<close> of every blob is in that form.
\<close>
definition ascii_lower :: "char \<Rightarrow> char" where
  "ascii_lower ch =
     (if 65 \<le> (of_char ch :: nat) \<and> (of_char ch :: nat) \<le> 90
      then (case ch of Char b0 b1 b2 b3 b4 b5 b6 b7 \<Rightarrow> Char b0 b1 b2 b3 b4 True b6 b7)
      else ch)"

definition normalize_type :: "string \<Rightarrow> string" where
  "normalize_type t =
     (if \<exists>ch \<in> set t. (of_char ch :: nat) < 32 \<or> 126 < (of_char ch :: nat) then []
      else map ascii_lower t)"

definition new_Blob :: "Blob list \<Rightarrow> BlobPropertyBag \<Rightarrow> Blob" where
  "new_Blob parts bag =
     \<lparr> blob_bytes = concat (map blob_bytes parts),
       blob_type = (case bag_type bag of Member t \<Rightarrow> normalize_type t | _ \<Rightarrow> []) \<rparr>"

definition getAudioTracks :: "MediaStream \<Rightarrow> MediaStreamTrack list" where
  "getAudioTracks st = filter (\<lambda>t. kind t = Audio) (tracks st)"

definition addTrack :: "MediaStreamTrack \<Rightarrow> MediaStream \<Rightarrow> MediaStream" where
  "addTrack t st = (if t \<in> set (tracks st) then st else st\<lparr>tracks := tracks st @ [t]\<rparr>)"

definition update_recorder ::
  "nat \<Rightarrow> (MediaRecorder \<Rightarrow> MediaRecorder) \<Rightarrow> hook_state \<Rightarrow> hook_state" where
  "update_recorder r f s = s\<lparr>recorders := (recorders s)(r := map_option f (recorders s r))\<rparr>"

text \<open>A listener is the event name and the function; it is added once and removed by identity.\<close>
definition same_listener :: "string \<Rightarrow> handler \<Rightarrow> string \<times> handler \<Rightarrow> bool" where
  "same_listener ty h l = (fst l = ty \<and> same_function (snd l) h)"

definition addEventListener :: "nat \<Rightarrow> string \<Rightarrow> handler \<Rightarrow> hook_state \<Rightarrow> hook_state" where
  "addEventListener r ty h s =
     update_recorder r (\<lambda>ro. if \<exists>l \<in> set (rec_listeners ro). same_listener ty h l then ro
                             else ro\<lparr>rec_listeners := rec_listeners ro @ [(ty, h)]\<rparr>) s"

definition removeEventListener :: "nat \<Rightarrow> string \<Rightarrow> handler \<Rightarrow> hook_state \<Rightarrow> hook_state" where
  "removeEventListener r ty h s =
     update_recorder r
       (\<lambda>ro. ro\<lparr>rec_listeners := filter (\<lambda>l. \<not> same_listener ty h l) (rec_listeners ro)\<rparr>) s"

definition recorder_state :: "nat \<Rightarrow> hook_state \<Rightarrow> RecordingState option" where
  "recorder_state r s = map_option rec_state (recorders s r)"

definition recorder_listeners :: "nat \<Rightarrow> hook_state \<Rightarrow> (string \<times> handler) list" where
  "recorder_listeners r s = (case recorders s r of None \<Rightarrow> [] | Some ro \<Rightarrow> rec_listeners ro)"

text \<open>
  The methods of a recorder set its \<open>state\<close> at once and notify later.  \<open>pause\<close> and \<open>resume\<close> are
  called in the state they need; \<open>stop\<close> on an inactive recorder does nothing.
\<close>
definition rec_pause :: "nat \<Rightarrow> hook_state \<Rightarrow> hook_state" where
  "rec_pause r s = emit (RecorderPause r) (update_recorder r (\<lambda>ro. ro\<lparr>rec_state := Rec_paused\<rparr>) s)"

definition rec_resume :: "nat \<Rightarrow> hook_state \<Rightarrow> hook_state" where
  "rec_resume r s =
     emit (RecorderResume r) (update_recorder r (\<lambda>ro. ro\<lparr>rec_state := Rec_recording\<rparr>) s)"

definition rec_stop :: "nat \<Rightarrow> hook_state \<Rightarrow> hook_state" where
  "rec_stop r s = emit (RecorderStop r) (update_recorder r (\<lambda>ro. ro\<lparr>rec_state := Inactive\<rparr>) s)"

subsection \<open>\<open>getWindow\<close> (lines 64 to 77)\<close>

definition getWindow :: "env \<Rightarrow> closure \<Rightarrow> hook_state \<Rightarrow> (js_error + Window) \<times> hook_state" where
  "getWindow env c s =
     (case windowRef s of
        Some w \<Rightarrow> (Inr w, s)
      | None \<Rightarrow>
          (case window env of
             None \<Rightarrow>
               (Inl (''[use-media-recorder] window is not defined the first (and only) time we retrieve it by either calling windowOverride() or falling back to the default `window`. (Note: windowOverride ''
                     @ (if windowOverride (props c) \<noteq> None then ''is'' else ''is NOT'')
                     @ '' defined)''), s)
           | Some global_window \<Rightarrow>
               (let w = (case windowOverride (props c) of Some w' \<Rightarrow> w' | None \<Rightarrow> global_window)
                in (Inr w, s\<lparr>windowRef := Some w\<rparr>))))"

subsection \<open>\<open>acquireMediaStream\<close> and \<open>releaseMediaStream\<close> (lines 93 to 145)\<close>

fun truthy :: "track_constraints \<Rightarrow> bool" where
  "truthy Undefined = False"
| "truthy (Boolean b) = b"
| "truthy (Object ks) = True"

text \<open>
  The \<open>async\<close> function of lines 107 to 126, whose rejection the \<open>try\<close> catches.  Reading a
  member of an undefined \<open>mediaDevices\<close>, or calling an undefined \<open>getDisplayMedia\<close>, throws
  a \<open>TypeError\<close>.  The second \<open>getWindow()\<close> of the screen branch finds the window the first
  one stored.
\<close>
definition requestStream ::
  "env \<Rightarrow> closure \<Rightarrow> hook_state \<Rightarrow> (js_error + MediaStream) \<times> hook_state" where
  "requestStream env c s =
     (case getWindow env c s of
        (Inl e, s1) \<Rightarrow> (Inl e, s1)
      | (Inr w, s1) \<Rightarrow>
          (case mediaDevices w of
             None \<Rightarrow> (Inl ''TypeError'', s1)
           | Some md \<Rightarrow>
               if recordScreen (props c) then
                 (if \<not> getDisplayMedia_defined md then (Inl ''TypeError'', s1)
                  else
                    (let s2 = emit (GetDisplayMedia (mediaStreamConstraints (props c))) s1 in
                     case getDisplayMedia_result env of
                       Inl e \<Rightarrow> (Inl e, s2)
                     | Inr stream \<Rightarrow>
                         if truthy (audio (mediaStreamConstraints (props c))) then
                           (let s3 = emit (GetUserMedia
                                       \<lparr>audio = audio (mediaStreamConstraints (props c)),
                                        video = Undefined\<rparr>) s2 in
                            case getUserMedia_result env of
                              Inl e \<Rightarrow> (Inl e, s3)
                            | Inr audioStream \<Rightarrow>
                                (Inr (fold addTrack (getAudioTracks audioStream) stream), s3))
                         else (Inr stream, s2)))
               else
                 (let s2 = emit (GetUserMedia (mediaStreamConstraints (props c))) s1 in
                  case getUserMedia_result env of
                    Inl e \<Rightarrow> (Inl e, s2)
                  | Inr stream \<Rightarrow> (Inr stream, s2))))"

text \<open>
  Lines 94 to 96 and 187 to 189: \<open>if (error) { setError(null) }\<close>, where \<open>error\<close> is the constant of
  the render the function belongs to.
\<close>
definition clear_seen_error :: "closure \<Rightarrow> hook_state \<Rightarrow> hook_state" where
  "clear_seen_error c s = (if seen_error c \<noteq> None then s\<lparr>error := None\<rparr> else s)"

text \<open>The result is the stream, or \<open>None\<close> for the \<open>null\<close> of the \<open>catch\<close> branch.\<close>
definition acquireMediaStream ::
  "env \<Rightarrow> closure \<Rightarrow> hook_state \<Rightarrow> MediaStream option \<times> hook_state" where
  "acquireMediaStream env c s =
     (let s1 = clear_seen_error c s;
          s2 = setStatus Acquiring_media s1
      in case customMediaStream (props c) of
           Some custom \<Rightarrow> (Some custom, setStatus Ready (s2\<lparr>mediaStream := Some custom\<rparr>))
         | None \<Rightarrow>
             (case requestStream env c s2 of
                (Inr stream, s3) \<Rightarrow> (Some stream, setStatus Ready (s3\<lparr>mediaStream := Some stream\<rparr>))
              | (Inl err, s3) \<Rightarrow> (None, setStatus Failed (s3\<lparr>error := Some err\<rparr>))))"

definition releaseMediaStream :: "hook_state \<Rightarrow> hook_state" where
  "releaseMediaStream s =
     (case mediaStream s of
        None \<Rightarrow> s
      | Some stream \<Rightarrow>
          setStatus Idle ((fold (\<lambda>track. emit (TrackStop track)) (tracks stream) s)
                            \<lparr>mediaStream := None\<rparr>))"

subsection \<open>The listeners (lines 147 to 184)\<close>

definition handleDataAvailable :: "closure \<Rightarrow> Blob \<Rightarrow> hook_state \<Rightarrow> hook_state" where
  "handleDataAvailable c e_data s =
     (let s1 = (if blob_size e_data \<noteq> 0 then s\<lparr>mediaChunks := mediaChunks s @ [e_data]\<rparr> else s)
      in optional_call (onDataAvailable (props c)) (OnDataAvailable e_data) s1)"

definition hasLengthAtLeast :: "'a list \<Rightarrow> nat \<Rightarrow> bool" where
  "hasLengthAtLeast arr len = (length arr \<ge> len)"

text \<open>
  The object literal \<open>{ type: sampleChunk.type, ...blobOptions }\<close>: every own property of
  \<open>blobOptions\<close> is copied over, an \<open>undefined\<close> one too.
\<close>
definition spread_blobOptions :: "string \<Rightarrow> BlobPropertyBag option \<Rightarrow> BlobPropertyBag" where
  "spread_blobOptions sample_type bo =
     (case bo of
        None \<Rightarrow> \<lparr>bag_type = Member sample_type, bag_endings = Absent\<rparr>
      | Some b \<Rightarrow>
          \<lparr>bag_type = (case bag_type b of Absent \<Rightarrow> Member sample_type | m \<Rightarrow> m),
           bag_endings = bag_endings b\<rparr>)"

text \<open>The function of lines 155 to 167: the pair \<open>[mediaBlob, mimeType]\<close>.\<close>
definition assemble :: "BlobPropertyBag option \<Rightarrow> Blob list \<Rightarrow> Blob option \<times> string" where
  "assemble bo chunks =
     (if hasLengthAtLeast chunks 1 then
        (let sampleChunk = hd chunks;
             blobPropertyBag = spread_blobOptions (blob_type sampleChunk) bo
         in (Some (new_Blob chunks blobPropertyBag), blob_type sampleChunk))
      else (None, []))"

definition handleStop :: "closure \<Rightarrow> hook_state \<Rightarrow> hook_state" where
  "handleStop c s =
     (case assemble (blobOptions (props c)) (mediaChunks s) of
        (blob, mime) \<Rightarrow>
          optional_call (onStop (props c)) (OnStop blob mime)
            ((setStatus Stopped s)\<lparr>mediaBlob := blob\<rparr>))"

definition handleError :: "closure \<Rightarrow> js_error \<Rightarrow> hook_state \<Rightarrow> hook_state" where
  "handleError c e s =
     optional_call (onError (props c)) (OnError e) (setStatus Idle (s\<lparr>error := Some e\<rparr>))"

definition handleTryCatchStart :: "closure \<Rightarrow> js_error \<Rightarrow> hook_state \<Rightarrow> hook_state" where
  "handleTryCatchStart c err s =
     optional_call (onError (props c)) (OnError err) (setStatus Idle (s\<lparr>error := Some err\<rparr>))"

text \<open>
  A call of a listener with an event.  The hook adds each function under its own event name,
  so it is called with an event of that name; \<open>handleDataAvailable\<close> with an event that has no
  \<open>data\<close> throws at \<open>e.data.size\<close> and changes nothing.
\<close>
fun call_handler :: "handler \<Rightarrow> event \<Rightarrow> hook_state \<Rightarrow> hook_state" where
  "call_handler (HandleDataAvailable c) (BlobEvent b) s = handleDataAvailable c b s"
| "call_handler (HandleDataAvailable c) ev s = s"
| "call_handler (HandleStop c) ev s = handleStop c s"
| "call_handler (HandleError c) ev s = handleError c (event_object ev) s"

text \<open>The recorder \<open>r\<close> notifies: its listeners for the name of the event are called in order.\<close>
definition dispatchEvent :: "nat \<Rightarrow> event \<Rightarrow> hook_state \<Rightarrow> hook_state" where
  "dispatchEvent r ev s =
     fold (\<lambda>l. call_handler (snd l) ev)
       (filter (\<lambda>l. fst l = event_type ev) (recorder_listeners r s)) s"

subsection \<open>\<open>startRecording\<close> (lines 186 to 212)\<close>

text \<open>\<open>new (getWindow().MediaRecorder)(stream, mediaRecorderOptions)\<close>: a fresh object, or a throw.\<close>
definition new_MediaRecorder ::
  "env \<Rightarrow> closure \<Rightarrow> MediaStream \<Rightarrow> hook_state \<Rightarrow> (js_error + nat) \<times> hook_state" where
  "new_MediaRecorder env c stream s =
     (case getWindow env c s of
        (Inl e, s1) \<Rightarrow> (Inl e, s1)
      | (Inr w, s1) \<Rightarrow>
          (case MediaRecorder_ctor w of
             None \<Rightarrow> (Inl ''TypeError'', s1)
           | Some M \<Rightarrow>
               (case construct_throws env of
                  Some e \<Rightarrow> (Inl e, s1)
                | None \<Rightarrow>
                    (let r = next_recorder s1 in
                     (Inr r,
                      s1\<lparr>recorders := (recorders s1)(r \<mapsto>
                             \<lparr>rec_state = Inactive, rec_listeners = [], rec_stream = stream\<rparr>),
                         next_recorder := Suc r\<rparr>)))))"

definition rec_start :: "env \<Rightarrow> nat \<Rightarrow> nat option \<Rightarrow> hook_state \<Rightarrow> js_error option \<times> hook_state" where
  "rec_start env r timeSlice s =
     (let s1 = emit (RecorderStart r timeSlice) s in
      case start_throws env of
        Some e \<Rightarrow> (Some e, s1)
      | None \<Rightarrow> (None, update_recorder r (\<lambda>ro. ro\<lparr>rec_state := Rec_recording\<rparr>) s1))"

text \<open>Line 191: \<open>mediaStream.current ?? (await acquireMediaStream())\<close>.\<close>
definition stream_or_acquire ::
  "env \<Rightarrow> closure \<Rightarrow> hook_state \<Rightarrow> MediaStream option \<times> hook_state" where
  "stream_or_acquire env c s =
     (case mediaStream s of
        Some held \<Rightarrow> (Some held, s)
      | None \<Rightarrow> acquireMediaStream env c s)"

text \<open>
  Lines 195 to 210, the body of \<open>if (stream)\<close>.  The result is the outcome of the promise of
  \<open>startRecording\<close>: \<open>None\<close> when it is fulfilled, \<open>Some e\<close> when it is rejected with \<open>e\<close>.
  Only \<open>rec.start\<close>, \<open>setStatus("recording")\<close> and \<open>onStart\<close> are inside the \<open>try\<close>.
\<close>
definition start_on_stream ::
  "env \<Rightarrow> closure \<Rightarrow> nat option \<Rightarrow> MediaStream \<Rightarrow> hook_state
     \<Rightarrow> js_error option \<times> hook_state" where
  "start_on_stream env c timeSlice stream s =
     (case new_MediaRecorder env c stream s of
        (Inl e, s1) \<Rightarrow> (Some e, s1)
      | (Inr r, s1) \<Rightarrow>
          (let s2 = s1\<lparr>mediaRecorder := Some r\<rparr>;
               s3 = addEventListener r ''dataavailable'' (HandleDataAvailable c) s2;
               s4 = addEventListener r ''stop'' (HandleStop c) s3;
               s5 = addEventListener r ''error'' (HandleError c) s4;
               s6 = s5\<lparr>activeMediaRecorder := Some r\<rparr>
           in case rec_start env r timeSlice s6 of
                (None, s7) \<Rightarrow>
                  (None, optional_call (onStart (props c)) OnStart (setStatus Recording s7))
              | (Some e, s7) \<Rightarrow> (None, handleTryCatchStart c e s7)))"

definition startRecording ::
  "env \<Rightarrow> closure \<Rightarrow> nat option \<Rightarrow> hook_state \<Rightarrow> js_error option \<times> hook_state" where
  "startRecording env c timeSlice s =
     (let s1 = clear_seen_error c s in
      case stream_or_acquire env c s1 of
        (stream_opt, s2) \<Rightarrow>
          (let s3 = s2\<lparr>mediaChunks := []\<rparr> in
           case stream_opt of
             None \<Rightarrow> (None, s3)
           | Some stream \<Rightarrow> start_on_stream env c timeSlice stream s3))"

subsection \<open>\<open>pauseRecording\<close>, \<open>resumeRecording\<close>, \<open>stopRecording\<close> (lines 221 to 255)\<close>

definition pauseRecording :: "closure \<Rightarrow> hook_state \<Rightarrow> hook_state" where
  "pauseRecording c s =
     (case mediaRecorder s of
        None \<Rightarrow> s
      | Some r \<Rightarrow>
          if recorder_state r s = Some Rec_recording then setStatus Paused (rec_pause r s) else s)"

definition resumeRecording :: "closure \<Rightarrow> hook_state \<Rightarrow> hook_state" where
  "resumeRecording c s =
     (case mediaRecorder s of
        None \<Rightarrow> s
      | Some r \<Rightarrow>
          if recorder_state r s = Some Rec_paused then setStatus Recording (rec_resume r s) else s)"

definition stopRecording :: "closure \<Rightarrow> hook_state \<Rightarrow> hook_state" where
  "stopRecording c s =
     (case mediaRecorder s of
        None \<Rightarrow> s
      | Some r \<Rightarrow>
          (let s1 = setStatus Stopping s;
               s2 = rec_stop r s1;
               s3 = removeEventListener r ''dataavailable'' (HandleDataAvailable c) s2;
               s4 = removeEventListener r ''stop'' (HandleStop c) s3;
               s5 = removeEventListener r ''error'' (HandleError c) s4;
               s6 = s5\<lparr>mediaRecorder := None\<rparr>
           in if customMediaStream (props c) = None then releaseMediaStream s6 else s6))"

definition clearMediaBlob :: "hook_state \<Rightarrow> hook_state" where
  "clearMediaBlob s = s\<lparr>mediaBlob := None\<rparr>"

subsection \<open>The support check (lines 257 to 317 and 344 to 365)\<close>

fun isObject :: "track_constraints \<Rightarrow> bool" where
  "isObject (Object ks) = True"
| "isObject _ = False"

fun object_keys :: "track_constraints \<Rightarrow> string list" where
  "object_keys (Object ks) = ks"
| "object_keys _ = []"

fun join :: "string \<Rightarrow> string list \<Rightarrow> string" where
  "join sep [] = []"
| "join sep [x] = x"
| "join sep (x # y # ys) = x @ sep @ join sep (y # ys)"

text \<open>
  The read \<open>supported[constraintName]\<close>, as a truth value.  \<open>supported\<close> is a plain object: the
  read finds an own property, given here by the map, or else a property of
  \<open>Object.prototype\<close>, all of which are truthy.
\<close>
definition object_prototype_keys :: "string list" where
  "object_prototype_keys =
     [''constructor'', ''hasOwnProperty'', ''isPrototypeOf'', ''propertyIsEnumerable'',
      ''toLocaleString'', ''toString'', ''valueOf'', ''__proto__'', ''__defineGetter__'',
      ''__defineSetter__'', ''__lookupGetter__'', ''__lookupSetter__'']"

definition read_supported :: "(string \<rightharpoonup> bool) \<Rightarrow> string \<Rightarrow> bool" where
  "read_supported supported constraintName =
     (case supported constraintName of
        Some v \<Rightarrow> v
      | None \<Rightarrow> constraintName \<in> set object_prototype_keys)"

definition ensureConstraintsSupported ::
  "(string \<rightharpoonup> bool) \<Rightarrow> track_constraints \<Rightarrow> string option" where
  "ensureConstraintsSupported supported requestedConstraints =
     (let unsupported =
            filter (\<lambda>constraintName. \<not> read_supported supported constraintName)
              (object_keys requestedConstraints)
      in if length unsupported \<noteq> 0 then
           Some (''The following media constraints ['' @ join '','' unsupported
                 @ ''] are not supported on this browser.'')
         else None)"

definition setBrowserSupportError :: "string \<Rightarrow> hook_state \<Rightarrow> hook_state" where
  "setBrowserSupportError msg s = s\<lparr>browserSupportError := Some msg\<rparr>"

text \<open>
  The body of the effect.  The result is \<open>Some e\<close> when the body throws \<open>e\<close>: line 265 reads
  \<open>mediaDevices.getDisplayMedia\<close> before line 271 tests \<open>mediaDevices\<close>, so with \<open>recordScreen\<close>
  an undefined \<open>mediaDevices\<close> is a \<open>TypeError\<close>; and line 310 names the global
  \<open>MediaRecorder\<close>, not the one of \<open>getWindow()\<close>.  When every test passes the slot is left
  as it is.
\<close>
definition supportCheck :: "env \<Rightarrow> closure \<Rightarrow> hook_state \<Rightarrow> js_error option \<times> hook_state" where
  "supportCheck env c s =
     (case getWindow env c s of
        (Inl e, s1) \<Rightarrow> (Some e, s1)
      | (Inr w, s1) \<Rightarrow>
          if MediaRecorder_ctor w = None then
            (None, setBrowserSupportError ''MediaRecorder is not supported in this browser. Please ensure that you are running the latest version of chrome/firefox/edge.'' s1)
          else
            (case mediaDevices w of
               None \<Rightarrow>
                 if recordScreen (props c) then (Some ''TypeError'', s1)
                 else (None, setBrowserSupportError ''The MediaDevices interface is not available on this browser.'' s1)
             | Some md \<Rightarrow>
                 if recordScreen (props c) \<and> \<not> getDisplayMedia_defined md then
                   (None, setBrowserSupportError ''This browser does not support screen capturing.'' s1)
                 else
                 (case getSupportedConstraints md of
                    None \<Rightarrow>
                      (None, setBrowserSupportError ''The MediaDevices.getSupportedConstraints() method is not available on this browser.'' s1)
                  | Some supported \<Rightarrow>
                      (case (if isObject (video (mediaStreamConstraints (props c)))
                             then ensureConstraintsSupported supported
                                    (video (mediaStreamConstraints (props c)))
                             else None) of
                         Some err \<Rightarrow> (None, setBrowserSupportError err s1)
                       | None \<Rightarrow>
                           (case (if isObject (audio (mediaStreamConstraints (props c)))
                                  then ensureConstraintsSupported supported
                                         (audio (mediaStreamConstraints (props c)))
                                  else None) of
                              Some err \<Rightarrow> (None, setBrowserSupportError err s1)
                            | None \<Rightarrow>
                                (case (case mediaRecorderOptions (props c) of
                                         None \<Rightarrow> None
                                       | Some opts \<Rightarrow> mimeType opts) of
                                   None \<Rightarrow> (None, s1)
                                 | Some mime \<Rightarrow>
                                     if mime = [] then (None, s1)
                                     else
                                       (case (case window env of
                                                None \<Rightarrow> None
                                              | Some g \<Rightarrow> MediaRecorder_ctor g) of
                                          None \<Rightarrow> (Some ''ReferenceError'', s1)
                                        | Some M \<Rightarrow>
                                            if \<not> isTypeSupported M mime then
                                              (None, setBrowserSupportError
                                                 (''The specified MIME type ['' @ mime
                                                  @ ''] supplied to MediaRecorder is not supported by this browser.'') s1)
                                            else (None, s1))))))))"

subsection \<open>Sequences of control calls\<close>

datatype control = PauseRecording | ResumeRecording | StopRecording

text \<open>One call of a control function, named with the closure it is taken from.\<close>
fun run_control :: "closure \<times> control \<Rightarrow> hook_state \<Rightarrow> hook_state" where
  "run_control (c, PauseRecording) s = pauseRecording c s"
| "run_control (c, ResumeRecording) s = resumeRecording c s"
| "run_control (c, StopRecording) s = stopRecording c s"

subsection \<open>Example values\<close>

definition chunk_a :: Blob where
  "chunk_a = \<lparr>blob_bytes = [1, 2], blob_type = ''audio/webm''\<rparr>"

definition chunk_b :: Blob where
  "chunk_b = \<lparr>blob_bytes = [3], blob_type = ''audio/ogg''\<rparr>"

definition chunk_empty :: Blob where
  "chunk_empty = \<lparr>blob_bytes = [], blob_type = ''audio/webm''\<rparr>"

definition mic_stream :: MediaStream where
  "mic_stream = \<lparr>tracks = [\<lparr>track_id = 0, kind = Audio\<rparr>]\<rparr>"

definition example_args :: UseMediaRecorderArgs where
  "example_args =
     \<lparr>mediaStreamConstraints = \<lparr>audio = Boolean True, video = Boolean False\<rparr>,
      blobOptions = None, recordScreen = False, customMediaStream = None,
      onStart = True, onStop = True, onDataAvailable = True, onError = True,
      mediaRecorderOptions = None, windowOverride = None\<rparr>"

text \<open>A browser that grants the microphone, and one whose user denies it.\<close>
definition example_window :: Window where
  "example_window =
     \<lparr>MediaRecorder_ctor = Some \<lparr>isTypeSupported = (\<lambda>t. t = ''audio/webm'')\<rparr>,
      mediaDevices = Some \<lparr>getDisplayMedia_defined = True,
                            getSupportedConstraints =
                              Some [''deviceId'' \<mapsto> True, ''echoCancellation'' \<mapsto> True]\<rparr>\<rparr>"

definition browser_grants :: env where
  "browser_grants =
     \<lparr>window = Some example_window, getUserMedia_result = Inr mic_stream,
      getDisplayMedia_result = Inl ''NotAllowedError'', construct_throws = None,
      start_throws = None\<rparr>"

definition browser_denies :: env where
  "browser_denies = browser_grants\<lparr>getUserMedia_result := Inl ''NotAllowedError''\<rparr>"

text \<open>Browsers whose recorder cannot be constructed, or cannot be started.\<close>
definition browser_rejects_recorder :: env where
  "browser_rejects_recorder = browser_grants\<lparr>construct_throws := Some ''NotSupportedError''\<rparr>"

definition browser_start_fails :: env where
  "browser_start_fails = browser_grants\<lparr>start_throws := Some ''InvalidStateError''\<rparr>"

text \<open>Two renders that saw an empty error slot, and a render that saw the error of a failure.\<close>
definition render0 :: closure where
  "render0 = \<lparr>render = 0, props = example_args, seen_error = None\<rparr>"

definition render1 :: closure where
  "render1 = \<lparr>render = 1, props = example_args, seen_error = None\<rparr>"

definition render_after_failure :: closure where
  "render_after_failure =
     \<lparr>render = 1, props = example_args, seen_error = Some ''NotAllowedError''\<rparr>"

text \<open>The same arguments with a stream of the caller.\<close>
definition custom_render :: closure where
  "custom_render =
     \<lparr>render = 0, props = example_args\<lparr>customMediaStream := Some mic_stream\<rparr>,
      seen_error = None\<rparr>"

definition custom_later :: closure where
  "custom_later =
     \<lparr>render = 1, props = example_args\<lparr>customMediaStream := Some mic_stream\<rparr>,
      seen_error = None\<rparr>"

text \<open>Arguments that ask for a constraint, and for a MIME type, the example browser lacks.\<close>
definition render_unsupported_constraint :: closure where
  "render_unsupported_constraint =
     \<lparr>render = 0,
      props = example_args\<lparr>mediaStreamConstraints :=
                \<lparr>audio = Object [''echoCancellation'', ''voiceIsolation''],
                 video = Boolean False\<rparr>\<rparr>,
      seen_error = None\<rparr>"

definition render_unsupported_mime :: closure where
  "render_unsupported_mime =
     \<lparr>render = 0,
      props = example_args\<lparr>mediaRecorderOptions := Some \<lparr>mimeType = Some ''video/mp4''\<rparr>\<rparr>,
      seen_error = None\<rparr>"

text \<open>
  A page in an insecure context has \<open>MediaRecorder\<close> and no \<open>mediaDevices\<close>; arguments that ask
  for the screen and a MIME type the browser lacks; arguments whose constraint key is a
  property every object inherits; and a later render whose constraints have changed.
\<close>
definition insecure_window :: Window where
  "insecure_window =
     \<lparr>MediaRecorder_ctor = Some \<lparr>isTypeSupported = (\<lambda>t. t = ''audio/webm'')\<rparr>,
      mediaDevices = None\<rparr>"

definition browser_insecure :: env where
  "browser_insecure = browser_grants\<lparr>window := Some insecure_window\<rparr>"

definition render_screen_unsupported_mime :: closure where
  "render_screen_unsupported_mime =
     \<lparr>render = 0,
      props = example_args\<lparr>recordScreen := True,
                mediaRecorderOptions := Some \<lparr>mimeType = Some ''video/mp4''\<rparr>\<rparr>,
      seen_error = None\<rparr>"

definition render_inherited_key :: closure where
  "render_inherited_key =
     \<lparr>render = 0,
      props = example_args\<lparr>mediaStreamConstraints :=
                \<lparr>audio = Object [''toString''], video = Boolean False\<rparr>\<rparr>,
      seen_error = None\<rparr>"

definition render_changed_constraints :: closure where
  "render_changed_constraints =
     \<lparr>render = 2,
      props = example_args\<lparr>mediaStreamConstraints :=
                \<lparr>audio = Object [''voiceIsolation''], video = Boolean False\<rparr>\<rparr>,
      seen_error = None\<rparr>"

text \<open>A state left by a failed attempt: an error in the slot and a chunk of an old session.\<close>
definition failed_state :: hook_state where
  "failed_state =
     initial_state\<lparr>error := Some ''NotAllowedError'', status := Failed,
                     mediaChunks := [chunk_b]\<rparr>"

text \<open>The state after a first \<open>startRecording\<close>, taken from render 0, has started the recorder.\<close>
definition recording_session :: hook_state where
  "recording_session = snd (startRecording browser_grants render0 None initial_state)"

definition custom_session :: hook_state where
  "custom_session = snd (startRecording browser_grants custom_render None initial_state)"

section \<open>Properties\<close>

subsection \<open>Shared lemmas\<close>

lemma fold_emit: "fold (\<lambda>x. emit (f x)) xs s = s\<lparr>trace := trace s @ map f xs\<rparr>"
  by (induction xs arbitrary: s) (simp_all add: emit_def)

subsection \<open>Assembling the artifact\<close>

text \<open>
  C2.  When the collected chunks are \<open>first # rest\<close>, \<open>handleStop\<close> stores in \<open>mediaBlob\<close> one
  blob whose bytes are the bytes of all the chunks in the order collected.  Its type is what
  the constructor makes of the type of \<open>first\<close>, or of the own \<open>type\<close> member of \<open>blobOptions\<close>
  when there is one (the empty type when that member is \<open>undefined\<close>); with no such member and
  a first chunk whose type is in the form every blob type has, it is the type of \<open>first\<close>.
  After \<open>setStatus("stopped")\<close> it calls \<open>onStop\<close>, when supplied, with that blob and the type
  of \<open>first\<close>.
\<close>
theorem handleStop_concatenates_chunks:
  assumes "mediaChunks s = first # rest"
  shows "mediaBlob (handleStop c s) =
           Some \<lparr>blob_bytes = concat (map blob_bytes (first # rest)),
                 blob_type =
                   (case (case blobOptions (props c) of None \<Rightarrow> Absent
                          | Some bag \<Rightarrow> bag_type bag) of
                      Absent \<Rightarrow> normalize_type (blob_type first)
                    | Undefined_member \<Rightarrow> []
                    | Member t \<Rightarrow> normalize_type t)\<rparr>
         \<and> ((case blobOptions (props c) of None \<Rightarrow> Absent | Some bag \<Rightarrow> bag_type bag) = Absent
              \<longrightarrow> normalize_type (blob_type first) = blob_type first
              \<longrightarrow> mediaBlob (handleStop c s) =
                    Some \<lparr>blob_bytes = concat (map blob_bytes (first # rest)),
                          blob_type = blob_type first\<rparr>)
         \<and> trace (handleStop c s) =
             trace s @ SetStatus Stopped #
               (if onStop (props c)
                then [OnStop (mediaBlob (handleStop c s)) (blob_type first)] else [])"
  using assms
  by (simp add: handleStop_def assemble_def hasLengthAtLeast_def spread_blobOptions_def
      new_Blob_def optional_call_def emit_def setStatus_def split: option.splits member.splits)

theorem handleStop_concatenates_chunks_witness:
  "mediaChunks (initial_state\<lparr>mediaChunks := [chunk_a, chunk_b]\<rparr>) = chunk_a # [chunk_b]
   \<and> blobOptions (props render0) = None
   \<and> normalize_type (blob_type chunk_a) = blob_type chunk_a
   \<and> mediaBlob (handleStop render0 (initial_state\<lparr>mediaChunks := [chunk_a, chunk_b]\<rparr>)) =
       Some \<lparr>blob_bytes = [1, 2, 3], blob_type = ''audio/webm''\<rparr>
   \<and> trace (handleStop render0 (initial_state\<lparr>mediaChunks := [chunk_a, chunk_b]\<rparr>)) =
       [SetStatus Stopped,
        OnStop (Some \<lparr>blob_bytes = [1, 2, 3], blob_type = ''audio/webm''\<rparr>) ''audio/webm'']"
  using handleStop_concatenates_chunks
          [of "initial_state\<lparr>mediaChunks := [chunk_a, chunk_b]\<rparr>" chunk_a "[chunk_b]" render0]
  by (simp add: initial_state_def chunk_a_def chunk_b_def render0_def example_args_def
      normalize_type_def ascii_lower_def)

text \<open>
  C3.  When no chunk has been collected, \<open>handleStop\<close> sets \<open>mediaBlob\<close> to \<open>null\<close> and calls
  \<open>onStop\<close>, when supplied, with a \<open>null\<close> blob and the empty string as MIME type.
\<close>
theorem handleStop_without_chunks:
  assumes "mediaChunks s = []"
  shows "mediaBlob (handleStop c s) = None
         \<and> trace (handleStop c s) =
             trace s @ SetStatus Stopped # (if onStop (props c) then [OnStop None []] else [])"
  using assms
  by (simp add: handleStop_def assemble_def hasLengthAtLeast_def optional_call_def emit_def
      setStatus_def)

theorem handleStop_without_chunks_witness:
  "mediaChunks initial_state = []
   \<and> mediaBlob (handleStop render0 initial_state) = None
   \<and> trace (handleStop render0 initial_state) = [SetStatus Stopped, OnStop None []]"
  using handleStop_without_chunks [of initial_state render0]
  by (simp add: initial_state_def render0_def example_args_def)

subsection \<open>Collecting chunks\<close>

text \<open>
  C10.  \<open>handleDataAvailable\<close> leaves the collected chunks as they are when the chunk of the
  notification has size zero and appends the chunk otherwise; in both cases it calls
  \<open>onDataAvailable\<close>, when supplied, with the chunk.
\<close>
theorem handleDataAvailable_skips_empty_chunk:
  "(blob_size b = 0 \<longrightarrow> mediaChunks (handleDataAvailable c b s) = mediaChunks s)
   \<and> (blob_size b \<noteq> 0 \<longrightarrow> mediaChunks (handleDataAvailable c b s) = mediaChunks s @ [b])
   \<and> (onDataAvailable (props c) \<longrightarrow>
        trace (handleDataAvailable c b s) = trace s @ [OnDataAvailable b])"
  by (simp add: handleDataAvailable_def optional_call_def emit_def)

theorem handleDataAvailable_skips_empty_chunk_witness:
  "blob_size chunk_empty = 0 \<and> onDataAvailable (props render0)
   \<and> mediaChunks (handleDataAvailable render0 chunk_empty initial_state) = []
   \<and> trace (handleDataAvailable render0 chunk_empty initial_state) = [OnDataAvailable chunk_empty]"
  using handleDataAvailable_skips_empty_chunk [of chunk_empty render0 initial_state]
  by (simp add: initial_state_def render0_def example_args_def chunk_empty_def blob_size_def)

subsection \<open>Stopping\<close>

text \<open>
  C6.  While no recorder is held, \<open>stopRecording\<close> returns the state it was given: status,
  error, \<open>mediaBlob\<close>, collected chunks and stream handle are the same, and the trace has no
  new entry, so no callback was called.
\<close>
theorem stopRecording_without_recorder:
  "mediaRecorder s = None \<Longrightarrow> stopRecording c s = s"
  by (simp add: stopRecording_def)

theorem stopRecording_without_recorder_witness:
  "mediaRecorder initial_state = None \<and> stopRecording render0 initial_state = initial_state"
  using stopRecording_without_recorder [of initial_state render0]
  by (simp add: initial_state_def)

lemmas hook_defs = startRecording_def start_on_stream_def stream_or_acquire_def
  acquireMediaStream_def clear_seen_error_def requestStream_def getWindow_def
  new_MediaRecorder_def rec_start_def addEventListener_def removeEventListener_def
  same_listener_def update_recorder_def setStatus_def emit_def optional_call_def
  handleTryCatchStart_def stopRecording_def rec_stop_def releaseMediaStream_def
  recorder_listeners_def dispatchEvent_def handleDataAvailable_def handleStop_def
  handleError_def assemble_def hasLengthAtLeast_def spread_blobOptions_def new_Blob_def
  normalize_type_def ascii_lower_def blob_size_def Let_def

lemmas example_defs = initial_state_def browser_grants_def browser_denies_def example_window_def
  browser_rejects_recorder_def browser_start_fails_def render_unsupported_constraint_def
  render_unsupported_mime_def failed_state_def render_after_failure_def
  insecure_window_def browser_insecure_def render_screen_unsupported_mime_def
  render_inherited_key_def render_changed_constraints_def
  render0_def render1_def custom_render_def custom_later_def example_args_def mic_stream_def
  chunk_a_def chunk_b_def chunk_empty_def

lemma recording_session_eq:
  "recording_session =
     \<lparr>windowRef = Some example_window, mediaChunks = [], mediaStream = Some mic_stream,
      mediaRecorder = Some 0, browserSupportError = None, error = None, status = Recording,
      activeMediaRecorder = Some 0, mediaBlob = None, isAudioMuted = False,
      recorders = [0 \<mapsto> \<lparr>rec_state = Rec_recording,
                            rec_listeners = [(''dataavailable'', HandleDataAvailable render0),
                                             (''stop'', HandleStop render0),
                                             (''error'', HandleError render0)],
                            rec_stream = mic_stream\<rparr>],
      next_recorder = 1,
      trace = [SetStatus Acquiring_media,
               GetUserMedia \<lparr>audio = Boolean True, video = Boolean False\<rparr>,
               SetStatus Ready, RecorderStart 0 None, SetStatus Recording, OnStart]\<rparr>"
  by (simp add: recording_session_def hook_defs example_defs)

lemma custom_session_eq:
  "custom_session =
     \<lparr>windowRef = Some example_window, mediaChunks = [], mediaStream = Some mic_stream,
      mediaRecorder = Some 0, browserSupportError = None, error = None, status = Recording,
      activeMediaRecorder = Some 0, mediaBlob = None, isAudioMuted = False,
      recorders = [0 \<mapsto> \<lparr>rec_state = Rec_recording,
                            rec_listeners = [(''dataavailable'', HandleDataAvailable custom_render),
                                             (''stop'', HandleStop custom_render),
                                             (''error'', HandleError custom_render)],
                            rec_stream = mic_stream\<rparr>],
      next_recorder = 1,
      trace = [SetStatus Acquiring_media, SetStatus Ready, RecorderStart 0 None,
               SetStatus Recording, OnStart]\<rparr>"
  by (simp add: custom_session_def hook_defs example_defs)

lemma stopRecording_trace:
  assumes "mediaRecorder s = Some r"
  shows "trace (stopRecording c s) =
           trace s @ SetStatus Stopping # RecorderStop r #
             (if customMediaStream (props c) = None then
                (case mediaStream s of
                   None \<Rightarrow> []
                 | Some stream \<Rightarrow> map TrackStop (tracks stream) @ [SetStatus Idle])
              else [])"
  using assms
  by (simp add: stopRecording_def Let_def releaseMediaStream_def setStatus_def emit_def
      rec_stop_def removeEventListener_def update_recorder_def fold_emit split: option.splits)

lemma stopRecording_mediaStream:
  assumes "mediaRecorder s = Some r"
  shows "mediaStream (stopRecording c s) =
           (if customMediaStream (props c) = None then None else mediaStream s)"
  using assms
  by (simp add: stopRecording_def Let_def releaseMediaStream_def setStatus_def emit_def
      rec_stop_def removeEventListener_def update_recorder_def fold_emit split: option.splits)

lemma stopRecording_status:
  assumes "mediaRecorder s = Some r"
  shows "status (stopRecording c s) =
           (if customMediaStream (props c) = None \<and> mediaStream s \<noteq> None then Idle
            else Stopping)"
  using assms
  by (auto simp add: stopRecording_def Let_def releaseMediaStream_def setStatus_def emit_def
      rec_stop_def removeEventListener_def update_recorder_def fold_emit split: option.splits)

lemma stopRecording_frame:
  "mediaChunks (stopRecording c s) = mediaChunks s \<and> error (stopRecording c s) = error s
   \<and> mediaBlob (stopRecording c s) = mediaBlob s \<and> mediaRecorder (stopRecording c s) = None"
  by (simp add: stopRecording_def Let_def releaseMediaStream_def setStatus_def emit_def
      rec_stop_def removeEventListener_def update_recorder_def fold_emit split: option.splits)

lemma stopRecording_listeners:
  assumes "mediaRecorder s = Some r"
  shows "recorder_listeners r (stopRecording c s) =
           filter (\<lambda>l. \<not> same_listener ''dataavailable'' (HandleDataAvailable c) l
                      \<and> \<not> same_listener ''stop'' (HandleStop c) l
                      \<and> \<not> same_listener ''error'' (HandleError c) l)
             (recorder_listeners r s)"
  using assms
  by (auto simp add: stopRecording_def Let_def releaseMediaStream_def setStatus_def emit_def
      rec_stop_def removeEventListener_def update_recorder_def fold_emit recorder_listeners_def
      split: option.splits intro: filter_cong)

lemma run_control_without_recorder: "mediaRecorder s = None \<Longrightarrow> run_control x s = s"
proof (cases x)
  case (Pair c k)
  assume "mediaRecorder s = None"
  with Pair show ?thesis
    by (cases k) (simp_all add: pauseRecording_def resumeRecording_def stopRecording_def)
qed

lemma fold_run_control_without_recorder:
  "mediaRecorder s = None \<Longrightarrow> fold run_control calls s = s"
  by (induction calls) (simp_all add: run_control_without_recorder)


lemma handleStop_mediaBlob:
  "mediaBlob (handleStop c s) =
     (case mediaChunks s of
        [] \<Rightarrow> None
      | first # rest \<Rightarrow>
          Some \<lparr>blob_bytes = concat (map blob_bytes (first # rest)),
                blob_type =
                  (case (case blobOptions (props c) of None \<Rightarrow> Absent
                         | Some bag \<Rightarrow> bag_type bag) of
                     Absent \<Rightarrow> normalize_type (blob_type first)
                   | Undefined_member \<Rightarrow> []
                   | Member t \<Rightarrow> normalize_type t)\<rparr>)"
  by (simp add: handleStop_def assemble_def hasLengthAtLeast_def spread_blobOptions_def
      new_Blob_def optional_call_def emit_def setStatus_def
      split: option.splits list.splits member.splits)

lemma handler_recorders:
  "recorders (handleDataAvailable c b s) = recorders s"
  "recorders (handleStop c s) = recorders s"
  "recorders (handleError c e s) = recorders s"
  by (simp_all add: handleDataAvailable_def handleStop_def handleError_def optional_call_def
      emit_def setStatus_def split: prod.splits)

lemma dispatchEvent_no_listener:
  "filter (\<lambda>l. fst l = event_type ev) (recorder_listeners r s) = [] \<Longrightarrow> dispatchEvent r ev s = s"
  by (simp add: dispatchEvent_def)

lemma dispatchEvent_one_listener:
  "filter (\<lambda>l. fst l = event_type ev) (recorder_listeners r s) = [(ty, h)]
     \<Longrightarrow> dispatchEvent r ev s = call_handler h ev s"
  by (simp add: dispatchEvent_def)




text \<open>
  C7, as the code has it.  What decides is the \<open>customMediaStream\<close> argument of the render
  \<open>stopRecording\<close> is taken from.  While a recorder is held: when that render has the
  argument, \<open>stopRecording\<close> leaves the stream handle as it is and stops no track; when it has
  none and a stream is held, \<open>stopRecording\<close> stops every track of that stream, clears the
  stream handle and ends with the status \<open>"idle"\<close>.
\<close>
theorem stopRecording_releases_own_stream_only:
  assumes "mediaRecorder s = Some r"
  shows "(customMediaStream (props c) \<noteq> None \<longrightarrow>
            mediaStream (stopRecording c s) = mediaStream s
            \<and> trace (stopRecording c s) = trace s @ [SetStatus Stopping, RecorderStop r])
         \<and> (customMediaStream (props c) = None \<longrightarrow> mediaStream s = Some stream \<longrightarrow>
              mediaStream (stopRecording c s) = None
              \<and> status (stopRecording c s) = Idle
              \<and> trace (stopRecording c s) =
                  trace s @ [SetStatus Stopping, RecorderStop r]
                    @ map TrackStop (tracks stream) @ [SetStatus Idle])"
  using assms
  by (simp add: stopRecording_trace stopRecording_mediaStream stopRecording_status)

theorem stopRecording_releases_own_stream_only_witness:
  "mediaRecorder custom_session = Some 0 \<and> customMediaStream (props custom_later) \<noteq> None
   \<and> mediaStream (stopRecording custom_later custom_session) = Some mic_stream
   \<and> trace (stopRecording custom_later custom_session) =
       trace custom_session @ [SetStatus Stopping, RecorderStop 0]
   \<and> mediaRecorder recording_session = Some 0 \<and> customMediaStream (props render1) = None
   \<and> mediaStream recording_session = Some mic_stream
   \<and> mediaStream (stopRecording render1 recording_session) = None
   \<and> status (stopRecording render1 recording_session) = Idle
   \<and> trace (stopRecording render1 recording_session) =
       trace recording_session
         @ [SetStatus Stopping, RecorderStop 0, TrackStop \<lparr>track_id = 0, kind = Audio\<rparr>,
            SetStatus Idle]
   \<and> mediaStream custom_session = Some mic_stream
   \<and> mediaStream (stopRecording render1 custom_session) = None
   \<and> status (stopRecording render1 custom_session) = Idle
   \<and> mediaStream (stopRecording custom_later recording_session) = Some mic_stream
   \<and> trace (stopRecording custom_later recording_session) =
       trace recording_session @ [SetStatus Stopping, RecorderStop 0]"
  using stopRecording_releases_own_stream_only [of custom_session 0 custom_later mic_stream]
        stopRecording_releases_own_stream_only [of recording_session 0 render1 mic_stream]
        stopRecording_releases_own_stream_only [of custom_session 0 render1 mic_stream]
        stopRecording_releases_own_stream_only [of recording_session 0 custom_later mic_stream]
  by (simp add: custom_session_eq recording_session_eq hook_defs example_defs)

text \<open>
  C7 as stated fails.  A recording started on the caller's stream and stopped from a render
  that has no \<open>customMediaStream\<close> argument stops the caller's track and clears the handle;
  a recording on a stream the hook acquired and stopped from a render that has the argument
  keeps the stream, with no track stopped.
\<close>
theorem stopRecording_release_follows_calling_render:
  "mediaRecorder custom_session = Some 0
   \<and> mediaStream custom_session = customMediaStream (props custom_render)
   \<and> customMediaStream (props render1) = None
   \<and> mediaStream (stopRecording render1 custom_session) = None
   \<and> trace (stopRecording render1 custom_session) =
       trace custom_session
         @ [SetStatus Stopping, RecorderStop 0, TrackStop \<lparr>track_id = 0, kind = Audio\<rparr>,
            SetStatus Idle]
   \<and> mediaRecorder recording_session = Some 0
   \<and> customMediaStream (props render0) = None
   \<and> GetUserMedia \<lparr>audio = Boolean True, video = Boolean False\<rparr> \<in> set (trace recording_session)
   \<and> mediaStream (stopRecording custom_later recording_session) = mediaStream recording_session
   \<and> trace (stopRecording custom_later recording_session) =
       trace recording_session @ [SetStatus Stopping, RecorderStop 0]"
  by (simp add: custom_session_eq recording_session_eq hook_defs example_defs)

text \<open>
  What \<open>stopRecording\<close> does to the recorder it finds: the handle is \<open>null\<close> afterwards, the
  three functions of the calling render are not among the recorder's listeners, every other
  listener stays, and the control calls that follow change nothing.
\<close>
lemma stopRecording_clears_recorder_handle:
  assumes "mediaRecorder s = Some r"
  shows "mediaRecorder (stopRecording c s) = None
         \<and> recorder_listeners r (stopRecording c s) =
             filter (\<lambda>l. \<not> same_listener ''dataavailable'' (HandleDataAvailable c) l
                        \<and> \<not> same_listener ''stop'' (HandleStop c) l
                        \<and> \<not> same_listener ''error'' (HandleError c) l)
               (recorder_listeners r s)
         \<and> fold run_control calls (stopRecording c s) = stopRecording c s"
  using assms
  by (simp add: stopRecording_frame stopRecording_listeners fold_run_control_without_recorder)

text \<open>
  C8.  The listeners are not removed when \<open>stopRecording\<close> is taken from another render
  than \<open>startRecording\<close>.  \<open>startRecording\<close> of render 0 registers the three functions of render
  0; \<open>stopRecording\<close> of render 1 finds the recorder and calls \<open>removeEventListener\<close> with the
  functions of render 1, which were never registered.  The recorder keeps all three
  listeners, and a \<open>dataavailable\<close> notification that follows still appends its chunk.  This
  is the order of calls of the README's \<open>toggleRecording\<close>: it calls \<open>stopRecording\<close> in a
  render whose status is \<open>"recording"\<close>, which comes after the render whose \<open>startRecording\<close>
  set that status.
\<close>
theorem stopRecording_keeps_listeners_of_other_render:
  "mediaRecorder recording_session = Some 0
   \<and> recorder_listeners 0 recording_session =
       [(''dataavailable'', HandleDataAvailable render0), (''stop'', HandleStop render0),
        (''error'', HandleError render0)]
   \<and> mediaRecorder (stopRecording render1 recording_session) = None
   \<and> recorder_listeners 0 (stopRecording render1 recording_session) =
       [(''dataavailable'', HandleDataAvailable render0), (''stop'', HandleStop render0),
        (''error'', HandleError render0)]
   \<and> mediaChunks (dispatchEvent 0 (BlobEvent chunk_a) (stopRecording render1 recording_session)) =
       [chunk_a]"
  by (simp add: recording_session_eq hook_defs example_defs)

subsection \<open>Starting\<close>

lemma clear_seen_error_fields [simp]:
  "windowRef (clear_seen_error c s) = windowRef s"
  "mediaChunks (clear_seen_error c s) = mediaChunks s"
  "mediaStream (clear_seen_error c s) = mediaStream s"
  "mediaRecorder (clear_seen_error c s) = mediaRecorder s"
  "status (clear_seen_error c s) = status s"
  "next_recorder (clear_seen_error c s) = next_recorder s"
  "trace (clear_seen_error c s) = trace s"
  by (simp_all add: clear_seen_error_def)

lemma clear_seen_error_overwritten [simp]:
  "(clear_seen_error c s)\<lparr>error := x\<rparr> = s\<lparr>error := x\<rparr>"
  by (simp add: clear_seen_error_def)

lemma clear_seen_error_twice [simp]:
  "clear_seen_error c (clear_seen_error c s) = clear_seen_error c s"
  by (simp add: clear_seen_error_def)

lemma clear_seen_error_error:
  "error (clear_seen_error c s) = (if seen_error c \<noteq> None then None else error s)"
  by (simp add: clear_seen_error_def)

lemma getWindow_cases:
  obtains (throws) e where "getWindow env c s = (Inl e, s)"
  | (returns) w where "getWindow env c s = (Inr w, s\<lparr>windowRef := Some w\<rparr>)"
  by (cases "windowRef s"; cases "window env") (simp_all add: getWindow_def Let_def)

lemma getWindow_fst_cong:
  "windowRef s = windowRef t \<Longrightarrow> fst (getWindow env c s) = fst (getWindow env c t)"
  by (simp add: getWindow_def Let_def split: option.split)

lemma requestStream_fst_after:
  assumes "fst (getWindow env c s) = fst (getWindow env c t)"
  shows "fst (requestStream env c s) = fst (requestStream env c t)"
proof -
  obtain a s1 where s: "getWindow env c s = (a, s1)" by (cases "getWindow env c s")
  obtain b t1 where t: "getWindow env c t = (b, t1)" by (cases "getWindow env c t")
  from assms s t have "b = a" by simp
  with s t show ?thesis
    by (cases a) (simp_all add: requestStream_def Let_def split: option.split sum.split)
qed

lemma requestStream_fst_cong:
  "windowRef s = windowRef t \<Longrightarrow> fst (requestStream env c s) = fst (requestStream env c t)"
  by (rule requestStream_fst_after) (rule getWindow_fst_cong)

lemma requestStream_snd:
  "\<exists>w' tr. snd (requestStream env c s) = s\<lparr>windowRef := w', trace := trace s @ tr\<rparr>
           \<and> (\<forall>x \<in> set tr. is_acquisition x) \<and> distinct tr"
proof (cases rule: getWindow_cases [of env c s])
  case (throws e)
  then have "snd (requestStream env c s) = s\<lparr>windowRef := windowRef s, trace := trace s @ []\<rparr>"
    by (simp add: requestStream_def)
  then show ?thesis by (intro exI [where x = "windowRef s"] exI [where x = "[]"]) simp
next
  case (returns w)
  let ?cs = "mediaStreamConstraints (props c)"
  let ?audio = "\<lparr>audio = audio ?cs, video = Undefined\<rparr>"
  have "snd (requestStream env c s) = s\<lparr>windowRef := Some w, trace := trace s @ []\<rparr>
      \<or> snd (requestStream env c s) = s\<lparr>windowRef := Some w, trace := trace s @ [GetUserMedia ?cs]\<rparr>
      \<or> snd (requestStream env c s) = s\<lparr>windowRef := Some w, trace := trace s @ [GetDisplayMedia ?cs]\<rparr>
      \<or> snd (requestStream env c s) =
            s\<lparr>windowRef := Some w, trace := trace s @ [GetDisplayMedia ?cs, GetUserMedia ?audio]\<rparr>"
    using returns
    by (simp add: requestStream_def Let_def emit_def split: option.split sum.split)
  then show ?thesis
  proof (elim disjE)
    assume "snd (requestStream env c s) = s\<lparr>windowRef := Some w, trace := trace s @ []\<rparr>"
    then show ?thesis by (intro exI [where x = "Some w"] exI [where x = "[]"]) simp
  next
    assume "snd (requestStream env c s) = s\<lparr>windowRef := Some w, trace := trace s @ [GetUserMedia ?cs]\<rparr>"
    then show ?thesis by (intro exI [where x = "Some w"] exI [where x = "[GetUserMedia ?cs]"]) simp
  next
    assume "snd (requestStream env c s) = s\<lparr>windowRef := Some w, trace := trace s @ [GetDisplayMedia ?cs]\<rparr>"
    then show ?thesis by (intro exI [where x = "Some w"] exI [where x = "[GetDisplayMedia ?cs]"]) simp
  next
    assume "snd (requestStream env c s) =
            s\<lparr>windowRef := Some w, trace := trace s @ [GetDisplayMedia ?cs, GetUserMedia ?audio]\<rparr>"
    then show ?thesis
      by (intro exI [where x = "Some w"] exI [where x = "[GetDisplayMedia ?cs, GetUserMedia ?audio]"]) simp
  qed
qed

lemma acquireMediaStream_custom:
  assumes "customMediaStream (props c) = Some custom"
  shows "acquireMediaStream env c s =
           (Some custom,
            (clear_seen_error c s)\<lparr>status := Ready, mediaStream := Some custom,
              trace := trace s @ [SetStatus Acquiring_media, SetStatus Ready]\<rparr>)"
  using assms by (simp add: acquireMediaStream_def setStatus_def emit_def)

lemma acquireMediaStream_rejected:
  assumes "customMediaStream (props c) = None" and "fst (requestStream env c s) = Inl e"
  shows "\<exists>w' tr. acquireMediaStream env c s =
           (None, s\<lparr>error := Some e, windowRef := w', status := Failed,
                    trace := trace s @ SetStatus Acquiring_media # tr @ [SetStatus Failed]\<rparr>)
         \<and> (\<forall>x \<in> set tr. is_acquisition x) \<and> distinct tr"
proof -
  let ?s2 = "setStatus Acquiring_media (clear_seen_error c s)"
  have "windowRef ?s2 = windowRef s" by (simp add: setStatus_def emit_def)
  then have f: "fst (requestStream env c ?s2) = Inl e"
    using assms(2) requestStream_fst_cong [of ?s2 s env c] by simp
  obtain w' tr where snd: "snd (requestStream env c ?s2) = ?s2\<lparr>windowRef := w', trace := trace ?s2 @ tr\<rparr>"
    and tr: "\<forall>x \<in> set tr. is_acquisition x" "distinct tr"
    using requestStream_snd [of env c ?s2] by blast
  from f snd have "requestStream env c ?s2 = (Inl e, ?s2\<lparr>windowRef := w', trace := trace ?s2 @ tr\<rparr>)"
    by (cases "requestStream env c ?s2") simp
  then have "acquireMediaStream env c s =
           (None, s\<lparr>error := Some e, windowRef := w', status := Failed,
                    trace := trace s @ SetStatus Acquiring_media # tr @ [SetStatus Failed]\<rparr>)"
    using assms(1) unfolding acquireMediaStream_def Let_def
    by (cases "seen_error c") (simp_all add: setStatus_def emit_def clear_seen_error_def)
  with tr show ?thesis by blast
qed

lemma acquireMediaStream_resolved:
  assumes "customMediaStream (props c) = None" and "fst (requestStream env c s) = Inr stream"
  shows "\<exists>w' tr. acquireMediaStream env c s =
           (Some stream, (clear_seen_error c s)\<lparr>windowRef := w', status := Ready,
                    mediaStream := Some stream,
                    trace := trace s @ SetStatus Acquiring_media # tr @ [SetStatus Ready]\<rparr>)
         \<and> (\<forall>x \<in> set tr. is_acquisition x) \<and> distinct tr"
proof -
  let ?s2 = "setStatus Acquiring_media (clear_seen_error c s)"
  have "windowRef ?s2 = windowRef s" by (simp add: setStatus_def emit_def)
  then have f: "fst (requestStream env c ?s2) = Inr stream"
    using assms(2) requestStream_fst_cong [of ?s2 s env c] by simp
  obtain w' tr where snd: "snd (requestStream env c ?s2) = ?s2\<lparr>windowRef := w', trace := trace ?s2 @ tr\<rparr>"
    and tr: "\<forall>x \<in> set tr. is_acquisition x" "distinct tr"
    using requestStream_snd [of env c ?s2] by blast
  from f snd have "requestStream env c ?s2 = (Inr stream, ?s2\<lparr>windowRef := w', trace := trace ?s2 @ tr\<rparr>)"
    by (cases "requestStream env c ?s2") simp
  then have "acquireMediaStream env c s =
           (Some stream, (clear_seen_error c s)\<lparr>windowRef := w', status := Ready,
                    mediaStream := Some stream,
                    trace := trace s @ SetStatus Acquiring_media # tr @ [SetStatus Ready]\<rparr>)"
    using assms(1) unfolding acquireMediaStream_def Let_def
    by (cases "seen_error c") (simp_all add: setStatus_def emit_def clear_seen_error_def)
  with tr show ?thesis by blast
qed

lemma new_MediaRecorder_cases:
  obtains (throws) e w' where "new_MediaRecorder env c stream s = (Inl e, s\<lparr>windowRef := w'\<rparr>)"
  | (constructs) w where
      "new_MediaRecorder env c stream s =
         (Inr (next_recorder s),
          s\<lparr>windowRef := Some w,
            recorders := (recorders s)(next_recorder s \<mapsto>
                           \<lparr>rec_state = Inactive, rec_listeners = [], rec_stream = stream\<rparr>),
            next_recorder := Suc (next_recorder s)\<rparr>)"
proof (cases rule: getWindow_cases [of env c s])
  case (throws e)
  then have "new_MediaRecorder env c stream s = (Inl e, s\<lparr>windowRef := windowRef s\<rparr>)"
    by (simp add: new_MediaRecorder_def)
  then show ?thesis by (rule that(1))
next
  case (returns w)
  show ?thesis
  proof (cases "MediaRecorder_ctor w = None \<or> construct_throws env \<noteq> None")
    case True
    with returns have "\<exists>e. new_MediaRecorder env c stream s = (Inl e, s\<lparr>windowRef := Some w\<rparr>)"
      by (auto simp add: new_MediaRecorder_def split: option.split)
    then show ?thesis using that(1) by blast
  next
    case False
    with returns have "new_MediaRecorder env c stream s =
         (Inr (next_recorder s),
          s\<lparr>windowRef := Some w,
            recorders := (recorders s)(next_recorder s \<mapsto>
                           \<lparr>rec_state = Inactive, rec_listeners = [], rec_stream = stream\<rparr>),
            next_recorder := Suc (next_recorder s)\<rparr>)"
      by (auto simp add: new_MediaRecorder_def Let_def)
    then show ?thesis by (rule that(2))
  qed
qed

lemma new_MediaRecorder_fst_cong:
  assumes "windowRef s = windowRef t" and "next_recorder s = next_recorder t"
  shows "fst (new_MediaRecorder env c stream s) = fst (new_MediaRecorder env c stream t)"
  using assms
  by (simp add: new_MediaRecorder_def getWindow_def Let_def split: option.split)

lemma start_on_stream_construct_throws:
  assumes "fst (new_MediaRecorder env c stream s) = Inl e"
  shows "\<exists>w'. start_on_stream env c ts stream s = (Some e, s\<lparr>windowRef := w'\<rparr>)"
proof (cases rule: new_MediaRecorder_cases [of env c stream s])
  case (throws e' w')
  with assms have "start_on_stream env c ts stream s = (Some e, s\<lparr>windowRef := w'\<rparr>)"
    by (simp add: start_on_stream_def)
  then show ?thesis by blast
next
  case (constructs w)
  with assms show ?thesis by simp
qed

lemma start_on_stream_start_throws:
  assumes "fst (new_MediaRecorder env c stream s) = Inr r" and "start_throws env = Some e"
  shows "fst (start_on_stream env c ts stream s) = None
       \<and> error (snd (start_on_stream env c ts stream s)) = Some e
       \<and> status (snd (start_on_stream env c ts stream s)) = Idle
       \<and> mediaChunks (snd (start_on_stream env c ts stream s)) = mediaChunks s
       \<and> trace (snd (start_on_stream env c ts stream s)) =
           trace s @ RecorderStart r ts # SetStatus Idle #
             (if onError (props c) then [OnError e] else [])"
proof (cases rule: new_MediaRecorder_cases [of env c stream s])
  case (throws e' w')
  with assms show ?thesis by simp
next
  case (constructs w)
  with assms show ?thesis
    by (simp add: start_on_stream_def Let_def rec_start_def addEventListener_def
        update_recorder_def emit_def setStatus_def handleTryCatchStart_def optional_call_def)
qed

lemma start_on_stream_started:
  assumes "fst (new_MediaRecorder env c stream s) = Inr r" and "start_throws env = None"
  shows "fst (start_on_stream env c ts stream s) = None
       \<and> error (snd (start_on_stream env c ts stream s)) = error s
       \<and> status (snd (start_on_stream env c ts stream s)) = Recording
       \<and> mediaChunks (snd (start_on_stream env c ts stream s)) = mediaChunks s
       \<and> mediaRecorder (snd (start_on_stream env c ts stream s)) = Some r
       \<and> recorder_listeners r (snd (start_on_stream env c ts stream s)) =
           [(''dataavailable'', HandleDataAvailable c), (''stop'', HandleStop c),
            (''error'', HandleError c)]
       \<and> trace (snd (start_on_stream env c ts stream s)) =
           trace s @ RecorderStart r ts # SetStatus Recording #
             (if onStart (props c) then [OnStart] else [])"
proof (cases rule: new_MediaRecorder_cases [of env c stream s])
  case (throws e' w')
  with assms show ?thesis by simp
next
  case (constructs w)
  with assms show ?thesis
    by (simp add: start_on_stream_def Let_def rec_start_def addEventListener_def
        same_listener_def recorder_listeners_def update_recorder_def emit_def setStatus_def
        optional_call_def)
qed

lemma start_on_stream_chunks:
  "mediaChunks (snd (start_on_stream env c ts stream s)) = mediaChunks s"
proof (cases "fst (new_MediaRecorder env c stream s)")
  case (Inl e)
  then show ?thesis using start_on_stream_construct_throws [of env c stream s e ts] by auto
next
  case (Inr r)
  then show ?thesis
    using start_on_stream_start_throws [of env c stream s r _ ts]
      start_on_stream_started [of env c stream s r ts]
    by (cases "start_throws env") simp_all
qed

lemma startRecording_unfold:
  "startRecording env c ts s =
     (case stream_or_acquire env c (clear_seen_error c s) of
        (None, s2) \<Rightarrow> (None, s2\<lparr>mediaChunks := []\<rparr>)
      | (Some stream, s2) \<Rightarrow> start_on_stream env c ts stream (s2\<lparr>mediaChunks := []\<rparr>))"
  unfolding startRecording_def Let_def
  by (simp split: prod.split option.split)

lemma startRecording_chunks: "mediaChunks (snd (startRecording env c ts s)) = []"
  by (simp add: startRecording_unfold start_on_stream_chunks split: prod.split option.split)

lemma startRecording_prior_error:
  "seen_error c \<noteq> None \<Longrightarrow>
     startRecording env c ts (s\<lparr>error := e0\<rparr>) = startRecording env c ts (s\<lparr>error := None\<rparr>)"
  by (simp add: startRecording_unfold clear_seen_error_def)

lemma stream_or_acquire_cases:
  obtains (held) stream where "stream_or_acquire env c s = (Some stream, s)"
  | (custom) stream where
      "stream_or_acquire env c s =
         (Some stream, (clear_seen_error c s)\<lparr>status := Ready, mediaStream := Some stream,
                         trace := trace s @ [SetStatus Acquiring_media, SetStatus Ready]\<rparr>)"
  | (resolved) stream w' tr where
      "stream_or_acquire env c s =
         (Some stream, (clear_seen_error c s)\<lparr>windowRef := w', status := Ready,
                         mediaStream := Some stream,
                         trace := trace s @ SetStatus Acquiring_media # tr @ [SetStatus Ready]\<rparr>)"
  | (rejected) e w' tr where
      "stream_or_acquire env c s =
         (None, s\<lparr>error := Some e, windowRef := w', status := Failed,
                  trace := trace s @ SetStatus Acquiring_media # tr @ [SetStatus Failed]\<rparr>)"
proof (cases "mediaStream s")
  case (Some stream)
  then show ?thesis using held by (simp add: stream_or_acquire_def)
next
  case None
  note no_stream = this
  show ?thesis
  proof (cases "customMediaStream (props c)")
    case (Some cs)
    with no_stream show ?thesis
      using custom acquireMediaStream_custom [of c cs env s] by (simp add: stream_or_acquire_def)
  next
    case None
    show ?thesis
    proof (cases "fst (requestStream env c s)")
      case (Inl e)
      with None no_stream show ?thesis
        using rejected acquireMediaStream_rejected [of c env s e]
        by (auto simp add: stream_or_acquire_def)
    next
      case (Inr stream)
      with None no_stream show ?thesis
        using resolved acquireMediaStream_resolved [of c env s stream]
        by (auto simp add: stream_or_acquire_def)
    qed
  qed
qed

lemma stream_or_acquire_Some:
  assumes "stream_or_acquire env c s = (Some stream, s2)"
  shows "(error s2 = error s \<or> error s2 = error (clear_seen_error c s))
         \<and> mediaChunks s2 = mediaChunks s"
proof (cases rule: stream_or_acquire_cases [of env c s])
  case (held stream)
  with assms show ?thesis by simp
next
  case (custom stream)
  with assms show ?thesis by auto
next
  case (resolved stream w' tr)
  with assms show ?thesis by auto
next
  case (rejected e w' tr)
  with assms show ?thesis by simp
qed

lemma stream_or_acquire_None:
  assumes "stream_or_acquire env c s = (None, s2)"
  shows "status s2 = Failed \<and> mediaChunks s2 = mediaChunks s"
proof (cases rule: stream_or_acquire_cases [of env c s])
  case (held stream)
  with assms show ?thesis by simp
next
  case (custom stream)
  with assms show ?thesis by simp
next
  case (resolved stream w' tr)
  with assms show ?thesis by simp
next
  case (rejected e w' tr)
  with assms show ?thesis by auto
qed

lemma stream_or_acquire_cleared:
  assumes "stream_or_acquire env c (clear_seen_error c s) = (Some stream, s2)"
  shows "error s2 = error (clear_seen_error c s)"
  using stream_or_acquire_Some [OF assms] by auto

lemma startRecording_success:
  assumes "fst (startRecording env c ts s) = None"
    and "status (snd (startRecording env c ts s)) = Recording"
  shows "error (snd (startRecording env c ts s)) = error (clear_seen_error c s)
       \<and> mediaChunks (snd (startRecording env c ts s)) = []
       \<and> (\<exists>r. mediaRecorder (snd (startRecording env c ts s)) = Some r
              \<and> recorder_listeners r (snd (startRecording env c ts s)) =
                  [(''dataavailable'', HandleDataAvailable c), (''stop'', HandleStop c),
                   (''error'', HandleError c)])"
proof -
  obtain so s2 where sa: "stream_or_acquire env c (clear_seen_error c s) = (so, s2)"
    by (cases "stream_or_acquire env c (clear_seen_error c s)")
  show ?thesis
  proof (cases so)
    case None
    with sa assms show ?thesis
      using stream_or_acquire_None [of env c "clear_seen_error c s" s2]
      by (simp add: startRecording_unfold)
  next
    case (Some stream)
    with sa have e2: "error s2 = error (clear_seen_error c s)"
      using stream_or_acquire_cleared [of env c s stream s2] by simp
    let ?s3 = "s2\<lparr>mediaChunks := []\<rparr>"
    from sa Some have r: "startRecording env c ts s = start_on_stream env c ts stream ?s3"
      by (simp add: startRecording_unfold)
    show ?thesis
    proof (cases "fst (new_MediaRecorder env c stream ?s3)")
      case (Inl e)
      then show ?thesis
        using start_on_stream_construct_throws [of env c stream ?s3 e ts] r assms(1) by auto
    next
      case (Inr rid)
      show ?thesis
      proof (cases "start_throws env")
        case None
        with Inr show ?thesis
          using start_on_stream_started [of env c stream ?s3 rid ts] r e2 by simp
      next
        case (Some e)
        with Inr show ?thesis
          using start_on_stream_start_throws [of env c stream ?s3 rid e ts] r assms by simp
      qed
    qed
  qed
qed

lemma fold_handleDataAvailable_chunks:
  "mediaChunks (fold (handleDataAvailable c) bs s) =
     mediaChunks s @ filter (\<lambda>b. blob_size b \<noteq> 0) bs"
  by (induction bs arbitrary: s) (simp_all add: handleDataAvailable_def optional_call_def emit_def)

lemma fold_handleDataAvailable_recorders:
  "recorders (fold (handleDataAvailable c) bs s) = recorders s"
  by (induction bs arbitrary: s) (simp_all add: handler_recorders)

lemma concat_nonempty_chunks:
  "concat (map blob_bytes (filter (\<lambda>b. blob_size b \<noteq> 0) bs)) = concat (map blob_bytes bs)"
  by (induction bs) (simp_all add: blob_size_def)

lemma recorder_listeners_cong:
  "recorders s' = recorders s \<Longrightarrow> recorder_listeners r s' = recorder_listeners r s"
  by (simp add: recorder_listeners_def)

lemma dispatch_chunks_to_start_listeners:
  assumes "recorder_listeners r s =
             [(''dataavailable'', HandleDataAvailable c), (''stop'', HandleStop c),
              (''error'', HandleError c)]"
  shows "fold (\<lambda>b. dispatchEvent r (BlobEvent b)) bs s = fold (handleDataAvailable c) bs s"
  using assms
proof (induction bs arbitrary: s)
  case Nil
  then show ?case by simp
next
  case (Cons b bs)
  have step: "dispatchEvent r (BlobEvent b) s = handleDataAvailable c b s"
    using Cons.prems by (simp add: dispatchEvent_def)
  have "recorder_listeners r (handleDataAvailable c b s) = recorder_listeners r s"
    by (rule recorder_listeners_cong) (simp add: handler_recorders)
  with Cons.prems have "fold (\<lambda>b. dispatchEvent r (BlobEvent b)) bs (handleDataAvailable c b s) =
      fold (handleDataAvailable c) bs (handleDataAvailable c b s)"
    using Cons.IH [of "handleDataAvailable c b s"] by simp
  with step show ?case by simp
qed

lemma dispatch_stop_to_start_listeners:
  assumes "recorder_listeners r s =
             [(''dataavailable'', HandleDataAvailable c), (''stop'', HandleStop c),
              (''error'', HandleError c)]"
  shows "dispatchEvent r StopEvent (fold (\<lambda>b. dispatchEvent r (BlobEvent b)) bs s) =
           handleStop c (fold (handleDataAvailable c) bs s)"
proof -
  have "recorder_listeners r (fold (handleDataAvailable c) bs s) = recorder_listeners r s"
    by (rule recorder_listeners_cong) (rule fold_handleDataAvailable_recorders)
  with assms show ?thesis
    by (simp add: dispatch_chunks_to_start_listeners [OF assms] dispatchEvent_def)
qed

text \<open>
  C9, as the code has it.  Whatever the browser answers, \<open>startRecording\<close> leaves the
  collected chunks empty.  When the render it is taken from saw an error in the slot, its
  outcome is the same whether the slot still holds an error or not, and a call that starts the
  recorder leaves the slot empty.  After a call that has started the recorder \<open>r\<close>, when \<open>r\<close>
  notifies the chunks \<open>bs\<close> and then its stop, the blob stored has the bytes of \<open>bs\<close> and of no
  chunk collected before the call, and there is no blob when all of \<open>bs\<close> are empty.
\<close>
theorem startRecording_resets_chunks:
  "mediaChunks (snd (startRecording env c ts s)) = []
   \<and> (seen_error c \<noteq> None \<longrightarrow>
        startRecording env c ts (s\<lparr>error := Some e0\<rparr>) = startRecording env c ts (s\<lparr>error := None\<rparr>))
   \<and> (fst (startRecording env c ts s) = None
        \<longrightarrow> status (snd (startRecording env c ts s)) = Recording \<longrightarrow>
        (seen_error c \<noteq> None \<longrightarrow> error (snd (startRecording env c ts s)) = None)
        \<and> (mediaRecorder (snd (startRecording env c ts s)) = Some r \<longrightarrow>
             mediaBlob (dispatchEvent r StopEvent
                 (fold (\<lambda>b. dispatchEvent r (BlobEvent b)) bs (snd (startRecording env c ts s)))) =
               (case filter (\<lambda>b. blob_size b \<noteq> 0) bs of
                  [] \<Rightarrow> None
                | first # rest \<Rightarrow>
                    Some \<lparr>blob_bytes = concat (map blob_bytes bs),
                          blob_type =
                            (case (case blobOptions (props c) of None \<Rightarrow> Absent
                                   | Some bag \<Rightarrow> bag_type bag) of
                               Absent \<Rightarrow> normalize_type (blob_type first)
                             | Undefined_member \<Rightarrow> []
                             | Member t \<Rightarrow> normalize_type t)\<rparr>)))"
proof -
  let ?s' = "snd (startRecording env c ts s)"
  let ?kept = "filter (\<lambda>b. blob_size b \<noteq> 0) bs"
  have session: "mediaBlob (dispatchEvent r StopEvent
                 (fold (\<lambda>b. dispatchEvent r (BlobEvent b)) bs ?s')) =
               (case ?kept of
                  [] \<Rightarrow> None
                | first # rest \<Rightarrow>
                    Some \<lparr>blob_bytes = concat (map blob_bytes bs),
                          blob_type =
                            (case (case blobOptions (props c) of None \<Rightarrow> Absent
                                   | Some bag \<Rightarrow> bag_type bag) of
                               Absent \<Rightarrow> normalize_type (blob_type first)
                             | Undefined_member \<Rightarrow> []
                             | Member t \<Rightarrow> normalize_type t)\<rparr>)"
    if ok: "fst (startRecording env c ts s) = None" "status ?s' = Recording"
      and rec: "mediaRecorder ?s' = Some r"
  proof -
    from startRecording_success [OF ok] rec
    have ls: "recorder_listeners r ?s' =
                [(''dataavailable'', HandleDataAvailable c), (''stop'', HandleStop c),
                 (''error'', HandleError c)]"
      and empty: "mediaChunks ?s' = []" by auto
    have chunks: "mediaChunks (fold (handleDataAvailable c) bs ?s') = ?kept"
      by (simp add: fold_handleDataAvailable_chunks empty)
    show ?thesis
    proof (cases ?kept)
      case Nil
      with chunks show ?thesis
        by (simp only: dispatch_stop_to_start_listeners [OF ls] handleStop_mediaBlob list.case)
    next
      case (Cons first rest)
      have "concat (map blob_bytes (first # rest)) = concat (map blob_bytes bs)"
        by (simp only: Cons [symmetric] concat_nonempty_chunks)
      with Cons chunks show ?thesis
        by (simp only: dispatch_stop_to_start_listeners [OF ls] handleStop_mediaBlob list.case)
    qed
  qed
  have cleared: "error ?s' = None"
    if "fst (startRecording env c ts s) = None" "status ?s' = Recording" "seen_error c \<noteq> None"
    using startRecording_success [OF that(1,2)] that(3) by (simp add: clear_seen_error_error)
  show ?thesis
    using session cleared startRecording_chunks [of env c ts s]
      startRecording_prior_error [where env = env and c = c and ts = ts and s = s
        and ?e0.0 = "Some e0"]
    by blast
qed

theorem startRecording_resets_chunks_witness:
  "seen_error render_after_failure \<noteq> None
   \<and> error failed_state = Some ''NotAllowedError'' \<and> mediaChunks failed_state = [chunk_b]
   \<and> fst (startRecording browser_grants render_after_failure None failed_state) = None
   \<and> status (snd (startRecording browser_grants render_after_failure None failed_state)) = Recording
   \<and> mediaRecorder (snd (startRecording browser_grants render_after_failure None failed_state)) =
       Some 0
   \<and> error (snd (startRecording browser_grants render_after_failure None failed_state)) = None
   \<and> mediaChunks (snd (startRecording browser_grants render_after_failure None failed_state)) = []
   \<and> mediaBlob (dispatchEvent 0 StopEvent
         (fold (\<lambda>b. dispatchEvent 0 (BlobEvent b)) [chunk_a, chunk_empty]
            (snd (startRecording browser_grants render_after_failure None failed_state)))) =
       Some \<lparr>blob_bytes = [1, 2], blob_type = ''audio/webm''\<rparr>"
  using startRecording_resets_chunks
          [where env = browser_grants and c = render_after_failure and ts = None
             and s = failed_state and r = 0 and bs = "[chunk_a, chunk_empty]"]
  by (simp add: hook_defs example_defs)

text \<open>
  C9 as stated fails twice.  \<open>startRecording\<close> taken from a render that saw an empty error slot
  starts the recorder and leaves the error of an earlier failure in the slot.  And after a
  recording on the caller's stream is stopped from a later render, so that the listeners of
  recorder 0 stay, and a new recording is started, a last chunk that recorder 0 notifies after
  the reset is collected with the chunks of recorder 1: the blob of the new recording begins
  with the bytes of that chunk and has its type.
\<close>
theorem startRecording_keeps_unseen_error_and_late_chunk:
  "error failed_state = Some ''NotAllowedError'' \<and> seen_error render0 = None
   \<and> status (snd (startRecording browser_grants render0 None failed_state)) = Recording
   \<and> error (snd (startRecording browser_grants render0 None failed_state)) =
       Some ''NotAllowedError''
   \<and> mediaRecorder (stopRecording custom_later custom_session) = None
   \<and> mediaRecorder (snd (startRecording browser_grants custom_later None
                              (stopRecording custom_later custom_session))) = Some 1
   \<and> mediaChunks (snd (startRecording browser_grants custom_later None
                            (stopRecording custom_later custom_session))) = []
   \<and> mediaBlob (dispatchEvent 1 StopEvent (dispatchEvent 1 (BlobEvent chunk_a)
         (dispatchEvent 0 (BlobEvent chunk_b)
            (snd (startRecording browser_grants custom_later None
                    (stopRecording custom_later custom_session)))))) =
       Some \<lparr>blob_bytes = [3, 1, 2], blob_type = ''audio/ogg''\<rparr>"
  by (simp add: custom_session_eq hook_defs example_defs)

subsection \<open>Errors\<close>

lemma acquisition_not_callback: "is_acquisition x \<Longrightarrow> \<not> is_callback x"
  by (cases x) simp_all

lemma acquireMediaStream_rejected_effects:
  assumes "customMediaStream (props c) = None" and "fst (requestStream env c s) = Inl e"
  shows "fst (acquireMediaStream env c s) = None
       \<and> error (snd (acquireMediaStream env c s)) = Some e
       \<and> status (snd (acquireMediaStream env c s)) = Failed
       \<and> filter is_callback (trace (snd (acquireMediaStream env c s))) =
           filter is_callback (trace s)
       \<and> distinct (filter is_acquisition
            (drop (length (trace s)) (trace (snd (acquireMediaStream env c s)))))"
proof -
  obtain w' tr where a: "acquireMediaStream env c s =
           (None, s\<lparr>error := Some e, windowRef := w', status := Failed,
                    trace := trace s @ SetStatus Acquiring_media # tr @ [SetStatus Failed]\<rparr>)"
    and tr: "\<forall>x \<in> set tr. is_acquisition x" "distinct tr"
    using acquireMediaStream_rejected [OF assms] by blast
  from tr(1) have "filter is_callback tr = []" "filter is_acquisition tr = tr"
    by (auto simp add: filter_empty_conv filter_id_conv dest: acquisition_not_callback)
  with a tr(2) show ?thesis by simp
qed

lemma startRecording_construct_throws:
  assumes "stream_or_acquire env c (clear_seen_error c s) = (Some stream, s2)"
    and "fst (new_MediaRecorder env c stream s2) = Inl e"
  shows "fst (startRecording env c ts s) = Some e
       \<and> error (snd (startRecording env c ts s)) = error (clear_seen_error c s)
       \<and> status (snd (startRecording env c ts s)) = status s2
       \<and> trace (snd (startRecording env c ts s)) = trace s2"
proof -
  let ?s3 = "s2\<lparr>mediaChunks := []\<rparr>"
  have r: "startRecording env c ts s = start_on_stream env c ts stream ?s3"
    using assms(1) by (simp add: startRecording_unfold)
  have "fst (new_MediaRecorder env c stream ?s3) = Inl e"
    using assms(2) new_MediaRecorder_fst_cong [of ?s3 s2 env c stream] by simp
  then obtain w' where "start_on_stream env c ts stream ?s3 = (Some e, ?s3\<lparr>windowRef := w'\<rparr>)"
    using start_on_stream_construct_throws [of env c stream ?s3 e ts] by blast
  moreover have "error s2 = error (clear_seen_error c s)"
    using stream_or_acquire_cleared [OF assms(1)] .
  ultimately show ?thesis using r by simp
qed

lemma startRecording_start_throws:
  assumes "stream_or_acquire env c (clear_seen_error c s) = (Some stream, s2)"
    and "fst (new_MediaRecorder env c stream s2) = Inr r" and "start_throws env = Some e"
  shows "fst (startRecording env c ts s) = None
       \<and> error (snd (startRecording env c ts s)) = Some e
       \<and> status (snd (startRecording env c ts s)) = Idle
       \<and> trace (snd (startRecording env c ts s)) =
           trace s2 @ RecorderStart r ts # SetStatus Idle #
             (if onError (props c) then [OnError e] else [])"
proof -
  let ?s3 = "s2\<lparr>mediaChunks := []\<rparr>"
  have r: "startRecording env c ts s = start_on_stream env c ts stream ?s3"
    using assms(1) by (simp add: startRecording_unfold)
  have "fst (new_MediaRecorder env c stream ?s3) = Inr r"
    using assms(2) new_MediaRecorder_fst_cong [of ?s3 s2 env c stream] by simp
  then show ?thesis
    using start_on_stream_start_throws [of env c stream ?s3 r e ts] assms(3) r by simp
qed


text \<open>
  C4, as the code has it.  An error of the acquisition (the request of lines 107 to 126
  rejects with \<open>e\<close>) is stored in the error slot and sets the status to \<open>"failed"\<close>;
  \<open>acquireMediaStream\<close> returns \<open>null\<close>, calls no callback and makes no request twice.  An error
  thrown by \<open>rec.start\<close> is stored in the error slot, sets the status to \<open>"idle"\<close> and is
  passed to \<open>onError\<close>, when supplied; \<open>rec.start\<close> is called once.  An error thrown by the
  construction of the recorder is not caught: \<open>startRecording\<close> rejects with it and writes it
  nowhere; the error slot holds what lines 187 to 189 left in it, and status and trace are as
  line 191 left them.
\<close>
theorem errors_by_origin:
  "(customMediaStream (props c) = None \<longrightarrow> fst (requestStream env c s) = Inl e \<longrightarrow>
      fst (acquireMediaStream env c s) = None
      \<and> error (snd (acquireMediaStream env c s)) = Some e
      \<and> status (snd (acquireMediaStream env c s)) = Failed
      \<and> filter is_callback (trace (snd (acquireMediaStream env c s))) =
          filter is_callback (trace s)
      \<and> distinct (filter is_acquisition
           (drop (length (trace s)) (trace (snd (acquireMediaStream env c s))))))
   \<and> (stream_or_acquire env c (clear_seen_error c s) = (Some stream, s2) \<longrightarrow>
        (fst (new_MediaRecorder env c stream s2) = Inl e \<longrightarrow>
           fst (startRecording env c ts s) = Some e
           \<and> error (snd (startRecording env c ts s)) = error (clear_seen_error c s)
           \<and> status (snd (startRecording env c ts s)) = status s2
           \<and> trace (snd (startRecording env c ts s)) = trace s2)
        \<and> (fst (new_MediaRecorder env c stream s2) = Inr r \<longrightarrow> start_throws env = Some e \<longrightarrow>
             fst (startRecording env c ts s) = None
             \<and> error (snd (startRecording env c ts s)) = Some e
             \<and> status (snd (startRecording env c ts s)) = Idle
             \<and> trace (snd (startRecording env c ts s)) =
                 trace s2 @ RecorderStart r ts # SetStatus Idle #
                   (if onError (props c) then [OnError e] else [])))"
  using acquireMediaStream_rejected_effects [of c env s e]
    startRecording_construct_throws [of env c s stream s2 e ts]
    startRecording_start_throws [of env c s stream s2 r e ts]
  by blast

theorem errors_by_origin_witness:
  "customMediaStream (props render0) = None
   \<and> fst (requestStream browser_denies render0 initial_state) = Inl ''NotAllowedError''
   \<and> error (snd (acquireMediaStream browser_denies render0 initial_state)) = Some ''NotAllowedError''
   \<and> status (snd (acquireMediaStream browser_denies render0 initial_state)) = Failed
   \<and> filter is_callback (trace (snd (acquireMediaStream browser_denies render0 initial_state))) = []
   \<and> fst (startRecording browser_rejects_recorder render0 None initial_state) = Some ''NotSupportedError''
   \<and> error (snd (startRecording browser_rejects_recorder render0 None initial_state)) = None
   \<and> status (snd (startRecording browser_rejects_recorder render0 None initial_state)) = Ready
   \<and> start_throws browser_start_fails = Some ''InvalidStateError''
   \<and> fst (startRecording browser_start_fails render0 None initial_state) = None
   \<and> error (snd (startRecording browser_start_fails render0 None initial_state)) = Some ''InvalidStateError''
   \<and> status (snd (startRecording browser_start_fails render0 None initial_state)) = Idle
   \<and> trace (snd (startRecording browser_start_fails render0 None initial_state)) =
       [SetStatus Acquiring_media, GetUserMedia \<lparr>audio = Boolean True, video = Boolean False\<rparr>,
        SetStatus Ready, RecorderStart 0 None, SetStatus Idle, OnError ''InvalidStateError'']
   \<and> error failed_state = Some ''NotAllowedError''
   \<and> seen_error render_after_failure \<noteq> None
   \<and> fst (startRecording browser_rejects_recorder render_after_failure None failed_state) =
       Some ''NotSupportedError''
   \<and> error (snd (startRecording browser_rejects_recorder render_after_failure None failed_state)) =
       None
   \<and> seen_error render0 = None
   \<and> fst (startRecording browser_rejects_recorder render0 None failed_state) =
       Some ''NotSupportedError''
   \<and> error (snd (startRecording browser_rejects_recorder render0 None failed_state)) =
       Some ''NotAllowedError''"
  using errors_by_origin [where c = render_after_failure and env = browser_rejects_recorder
          and s = failed_state
          and e = "''NotSupportedError''" and ts = None and stream = mic_stream
          and ?s2.0 = "snd (stream_or_acquire browser_rejects_recorder render_after_failure
                              (clear_seen_error render_after_failure failed_state))"]
    errors_by_origin [where c = render0 and env = browser_rejects_recorder
          and s = failed_state
          and e = "''NotSupportedError''" and ts = None and stream = mic_stream
          and ?s2.0 = "snd (stream_or_acquire browser_rejects_recorder render0
                              (clear_seen_error render0 failed_state))"]
    errors_by_origin [where c = render0 and env = browser_denies and s = initial_state
          and e = "''NotAllowedError''"
          and stream = mic_stream
          and ?s2.0 = "snd (stream_or_acquire browser_denies render0
                              (clear_seen_error render0 initial_state))"]
    errors_by_origin [where c = render0 and env = browser_rejects_recorder and s = initial_state
          and e = "''NotSupportedError''" and ts = None and stream = mic_stream
          and ?s2.0 = "snd (stream_or_acquire browser_rejects_recorder render0
                              (clear_seen_error render0 initial_state))"]
    errors_by_origin [where c = render0 and env = browser_start_fails and s = initial_state
          and e = "''InvalidStateError''" and ts = None and stream = mic_stream and r = 0
          and ?s2.0 = "snd (stream_or_acquire browser_start_fails render0
                              (clear_seen_error render0 initial_state))"]
  by (simp add: hook_defs example_defs)

text \<open>
  C4 as stated fails.  With \<open>onError\<close> supplied and the user denying the microphone,
  \<open>startRecording\<close> stores the error and sets the status to \<open>"failed"\<close>, and its trace has no
  call of \<open>onError\<close>.  With a recorder whose construction throws, \<open>startRecording\<close> rejects,
  the error slot stays empty and the status stays \<open>"ready"\<close>.
\<close>
theorem acquisition_and_construction_errors_unreported:
  "onError (props render0)
   \<and> fst (requestStream browser_denies render0 initial_state) = Inl ''NotAllowedError''
   \<and> startRecording browser_denies render0 None initial_state =
       (None, initial_state\<lparr>windowRef := Some example_window, error := Some ''NotAllowedError'',
                status := Failed,
                trace := [SetStatus Acquiring_media,
                          GetUserMedia \<lparr>audio = Boolean True, video = Boolean False\<rparr>,
                          SetStatus Failed]\<rparr>)
   \<and> construct_throws browser_rejects_recorder = Some ''NotSupportedError''
   \<and> startRecording browser_rejects_recorder render0 None initial_state =
       (Some ''NotSupportedError'',
        initial_state\<lparr>windowRef := Some example_window, mediaStream := Some mic_stream,
                status := Ready,
                trace := [SetStatus Acquiring_media,
                          GetUserMedia \<lparr>audio = Boolean True, video = Boolean False\<rparr>,
                          SetStatus Ready]\<rparr>)"
  by (simp add: hook_defs example_defs)

subsection \<open>The support check\<close>

lemma ensureConstraintsSupported_unsupported:
  "k \<in> set (object_keys rc) \<Longrightarrow> \<not> read_supported supported k
     \<Longrightarrow> ensureConstraintsSupported supported rc \<noteq> None"
  by (auto simp add: ensureConstraintsSupported_def Let_def filter_empty_conv)

lemma object_keys_isObject: "k \<in> set (object_keys rc) \<Longrightarrow> isObject rc"
  by (cases rc) simp_all

lemma supportCheck_frame:
  "\<exists>w' b'. snd (supportCheck env c s) = s\<lparr>windowRef := w', browserSupportError := b'\<rparr>"
proof (cases rule: getWindow_cases [of env c s])
  case (throws e)
  then have "snd (supportCheck env c s) =
      s\<lparr>windowRef := windowRef s, browserSupportError := browserSupportError s\<rparr>"
    by (simp add: supportCheck_def)
  then show ?thesis by blast
next
  case (returns w)
  have "snd (supportCheck env c s) =
      s\<lparr>windowRef := Some w,
        browserSupportError := browserSupportError (snd (supportCheck env c s))\<rparr>"
    using returns
    by (simp add: supportCheck_def setBrowserSupportError_def split: option.split)
  then show ?thesis by blast
qed

lemma supportCheck_unsupported:
  assumes "fst (getWindow env c s) = Inr w"
    and "mediaDevices w = Some md"
    and "(getSupportedConstraints md = Some supported
            \<and> k \<in> set (object_keys (video (mediaStreamConstraints (props c))))
            \<and> \<not> read_supported supported k)
       \<or> (getSupportedConstraints md = Some supported
            \<and> k \<in> set (object_keys (audio (mediaStreamConstraints (props c))))
            \<and> \<not> read_supported supported k)
       \<or> (window env = Some g \<and> MediaRecorder_ctor g = Some M
            \<and> mediaRecorderOptions (props c) = Some opts \<and> mimeType opts = Some mime
            \<and> mime \<noteq> [] \<and> \<not> isTypeSupported M mime)"
  shows "fst (supportCheck env c s) = None
       \<and> browserSupportError (snd (supportCheck env c s)) \<noteq> None"
proof -
  have gw: "getWindow env c s = (Inr w, s\<lparr>windowRef := Some w\<rparr>)"
    using assms(1) by (cases rule: getWindow_cases [of env c s]) simp_all
  show ?thesis
  proof (cases "getSupportedConstraints md")
    case None
    with gw assms(2) show ?thesis
      by (simp add: supportCheck_def setBrowserSupportError_def)
  next
    case (Some sup)
    let ?v = "if isObject (video (mediaStreamConstraints (props c)))
              then ensureConstraintsSupported sup (video (mediaStreamConstraints (props c)))
              else None"
    let ?a = "if isObject (audio (mediaStreamConstraints (props c)))
              then ensureConstraintsSupported sup (audio (mediaStreamConstraints (props c)))
              else None"
    from assms(3) Some have bad: "?v \<noteq> None \<or> ?a \<noteq> None
         \<or> (window env = Some g \<and> MediaRecorder_ctor g = Some M
              \<and> mediaRecorderOptions (props c) = Some opts \<and> mimeType opts = Some mime
              \<and> mime \<noteq> [] \<and> \<not> isTypeSupported M mime)"
      using ensureConstraintsSupported_unsupported [of k _ sup] object_keys_isObject [of k]
      by auto
    show ?thesis
    proof (cases "?v")
      case (Some err)
      with gw assms(2) \<open>getSupportedConstraints md = Some sup\<close> show ?thesis
        by (simp add: supportCheck_def setBrowserSupportError_def)
    next
      case None
      note v = this
      show ?thesis
      proof (cases "?a")
        case (Some err)
        with v gw assms(2) \<open>getSupportedConstraints md = Some sup\<close> show ?thesis
          by (simp add: supportCheck_def setBrowserSupportError_def)
      next
        case None
        with v bad have "window env = Some g \<and> MediaRecorder_ctor g = Some M
              \<and> mediaRecorderOptions (props c) = Some opts \<and> mimeType opts = Some mime
              \<and> mime \<noteq> [] \<and> \<not> isTypeSupported M mime" by simp
        with v None gw assms(2) \<open>getSupportedConstraints md = Some sup\<close> show ?thesis
          by (simp add: supportCheck_def setBrowserSupportError_def)
      qed
    qed
  qed
qed

text \<open>No function of the hook reads \<open>browserSupportError\<close>.\<close>

lemma getWindow_ignores_support_error:
  "getWindow env c (s\<lparr>browserSupportError := b\<rparr>) =
     (fst (getWindow env c s), (snd (getWindow env c s))\<lparr>browserSupportError := b\<rparr>)"
  by (simp add: getWindow_def Let_def split: option.split)

lemma requestStream_ignores_support_error:
  "requestStream env c (s\<lparr>browserSupportError := b\<rparr>) =
     (fst (requestStream env c s), (snd (requestStream env c s))\<lparr>browserSupportError := b\<rparr>)"
proof -
  obtain a s1 where gw: "getWindow env c s = (a, s1)" by (cases "getWindow env c s")
  then have "getWindow env c (s\<lparr>browserSupportError := b\<rparr>) = (a, s1\<lparr>browserSupportError := b\<rparr>)"
    by (simp add: getWindow_ignores_support_error)
  with gw show ?thesis
    by (cases a) (simp_all add: requestStream_def Let_def emit_def split: option.split sum.split)
qed

lemma acquireMediaStream_ignores_support_error:
  "acquireMediaStream env c (s\<lparr>browserSupportError := b\<rparr>) =
     (fst (acquireMediaStream env c s),
      (snd (acquireMediaStream env c s))\<lparr>browserSupportError := b\<rparr>)"
proof -
  let ?s2 = "setStatus Acquiring_media (clear_seen_error c s)"
  have s2: "setStatus Acquiring_media (clear_seen_error c (s\<lparr>browserSupportError := b\<rparr>)) =
              ?s2\<lparr>browserSupportError := b\<rparr>"
    by (simp add: setStatus_def emit_def clear_seen_error_def)
  obtain a s3 where rs: "requestStream env c ?s2 = (a, s3)" by (cases "requestStream env c ?s2")
  then have rs': "requestStream env c (?s2\<lparr>browserSupportError := b\<rparr>) =
                    (a, s3\<lparr>browserSupportError := b\<rparr>)"
    by (simp add: requestStream_ignores_support_error)
  show ?thesis
    unfolding acquireMediaStream_def Let_def s2
    using rs rs'
    by (cases a) (simp_all add: setStatus_def emit_def split: option.split)
qed

lemma new_MediaRecorder_ignores_support_error:
  "new_MediaRecorder env c stream (s\<lparr>browserSupportError := b\<rparr>) =
     (fst (new_MediaRecorder env c stream s),
      (snd (new_MediaRecorder env c stream s))\<lparr>browserSupportError := b\<rparr>)"
proof -
  obtain a s1 where gw: "getWindow env c s = (a, s1)" by (cases "getWindow env c s")
  then have gw': "getWindow env c (s\<lparr>browserSupportError := b\<rparr>) =
                    (a, s1\<lparr>browserSupportError := b\<rparr>)"
    by (simp add: getWindow_ignores_support_error)
  from gw gw' show ?thesis
    by (cases a) (simp_all add: new_MediaRecorder_def Let_def split: option.split)
qed

lemma start_on_stream_ignores_support_error:
  "start_on_stream env c ts stream (s\<lparr>browserSupportError := b\<rparr>) =
     (fst (start_on_stream env c ts stream s),
      (snd (start_on_stream env c ts stream s))\<lparr>browserSupportError := b\<rparr>)"
proof -
  obtain a s1 where nr: "new_MediaRecorder env c stream s = (a, s1)"
    by (cases "new_MediaRecorder env c stream s")
  then have nr': "new_MediaRecorder env c stream (s\<lparr>browserSupportError := b\<rparr>) =
                    (a, s1\<lparr>browserSupportError := b\<rparr>)"
    by (simp add: new_MediaRecorder_ignores_support_error)
  from nr nr' show ?thesis
    by (cases a)
      (simp_all add: start_on_stream_def Let_def rec_start_def addEventListener_def
        update_recorder_def emit_def setStatus_def optional_call_def handleTryCatchStart_def
        split: option.split)
qed

lemma startRecording_ignores_support_error:
  "startRecording env c ts (s\<lparr>browserSupportError := b\<rparr>) =
     (fst (startRecording env c ts s), (snd (startRecording env c ts s))\<lparr>browserSupportError := b\<rparr>)"
proof -
  let ?s1 = "clear_seen_error c s"
  have s1: "clear_seen_error c (s\<lparr>browserSupportError := b\<rparr>) = ?s1\<lparr>browserSupportError := b\<rparr>"
    by (simp add: clear_seen_error_def)
  obtain so s2 where sa: "stream_or_acquire env c ?s1 = (so, s2)"
    by (cases "stream_or_acquire env c ?s1")
  then have sa': "stream_or_acquire env c (?s1\<lparr>browserSupportError := b\<rparr>) =
                    (so, s2\<lparr>browserSupportError := b\<rparr>)"
    by (auto simp add: stream_or_acquire_def acquireMediaStream_ignores_support_error
        split: option.splits)
  have swap: "s2\<lparr>browserSupportError := b, mediaChunks := []\<rparr> =
                s2\<lparr>mediaChunks := [], browserSupportError := b\<rparr>" by simp
  have "start_on_stream env c ts stream (s2\<lparr>browserSupportError := b, mediaChunks := []\<rparr>) =
          (fst (start_on_stream env c ts stream (s2\<lparr>mediaChunks := []\<rparr>)),
           (snd (start_on_stream env c ts stream (s2\<lparr>mediaChunks := []\<rparr>)))
             \<lparr>browserSupportError := b\<rparr>)" for stream
    unfolding swap by (rule start_on_stream_ignores_support_error)
  then show ?thesis
    unfolding startRecording_def Let_def s1
    using sa sa'
    by (cases so) simp_all
qed

text \<open>
  C5, as the code has it.  In a browser that has \<open>mediaDevices\<close>: when the video or the audio
  constraint object has a key \<open>k\<close> that reads as unsupported from the supported constraints, or
  when the recorder options name a MIME type that the global \<open>MediaRecorder.isTypeSupported\<close>
  refuses, the support check completes with \<open>browserSupportError\<close> set.  The check changes the
  cached window and that slot only, so it makes no acquisition request; and no
  \<open>startRecording\<close> depends on the slot: its outcome is the same whatever the slot holds.
\<close>
theorem supportCheck_records_unsupported:
  assumes "fst (getWindow env c s) = Inr w"
    and "mediaDevices w = Some md"
    and "(getSupportedConstraints md = Some supported
            \<and> k \<in> set (object_keys (video (mediaStreamConstraints (props c))))
            \<and> \<not> read_supported supported k)
       \<or> (getSupportedConstraints md = Some supported
            \<and> k \<in> set (object_keys (audio (mediaStreamConstraints (props c))))
            \<and> \<not> read_supported supported k)
       \<or> (window env = Some g \<and> MediaRecorder_ctor g = Some M
            \<and> mediaRecorderOptions (props c) = Some opts \<and> mimeType opts = Some mime
            \<and> mime \<noteq> [] \<and> \<not> isTypeSupported M mime)"
  shows "fst (supportCheck env c s) = None
       \<and> browserSupportError (snd (supportCheck env c s)) \<noteq> None
       \<and> snd (supportCheck env c s) =
           s\<lparr>windowRef := Some w,
             browserSupportError := browserSupportError (snd (supportCheck env c s))\<rparr>
       \<and> trace (snd (supportCheck env c s)) = trace s
       \<and> startRecording env' c' ts (s'\<lparr>browserSupportError := b\<rparr>) =
           (fst (startRecording env' c' ts s'),
            (snd (startRecording env' c' ts s'))\<lparr>browserSupportError := b\<rparr>)"
proof -
  have gw: "getWindow env c s = (Inr w, s\<lparr>windowRef := Some w\<rparr>)"
    using assms(1) by (cases rule: getWindow_cases [of env c s]) simp_all
  have frame: "snd (supportCheck env c s) =
           s\<lparr>windowRef := Some w,
             browserSupportError := browserSupportError (snd (supportCheck env c s))\<rparr>"
    using gw by (simp add: supportCheck_def setBrowserSupportError_def split: option.split)
  have "trace (s\<lparr>windowRef := Some w, browserSupportError := x\<rparr>) = trace s" for x
    by simp
  with frame have "trace (snd (supportCheck env c s)) = trace s"
    by metis
  with frame show ?thesis
    using supportCheck_unsupported [OF assms] startRecording_ignores_support_error by simp
qed

theorem supportCheck_records_unsupported_witness:
  "fst (getWindow browser_grants render_unsupported_constraint initial_state) = Inr example_window
   \<and> ''voiceIsolation''
        \<in> set (object_keys (audio (mediaStreamConstraints (props render_unsupported_constraint))))
   \<and> \<not> read_supported [''deviceId'' \<mapsto> True, ''echoCancellation'' \<mapsto> True] ''voiceIsolation''
   \<and> browserSupportError
        (snd (supportCheck browser_grants render_unsupported_constraint initial_state)) =
       Some ''The following media constraints [voiceIsolation] are not supported on this browser.''
   \<and> trace (snd (supportCheck browser_grants render_unsupported_constraint initial_state)) = []
   \<and> mimeType (the (mediaRecorderOptions (props render_unsupported_mime))) = Some ''video/mp4''
   \<and> browserSupportError
        (snd (supportCheck browser_grants render_unsupported_mime initial_state)) =
       Some ''The specified MIME type [video/mp4] supplied to MediaRecorder is not supported by this browser.''
   \<and> trace (snd (supportCheck browser_grants render_unsupported_mime initial_state)) = []"
  using supportCheck_records_unsupported
          [where env = browser_grants and c = render_unsupported_constraint
             and s = initial_state and w = example_window
             and md = "\<lparr>getDisplayMedia_defined = True,
                        getSupportedConstraints =
                          Some [''deviceId'' \<mapsto> True, ''echoCancellation'' \<mapsto> True]\<rparr>"
             and supported = "[''deviceId'' \<mapsto> True, ''echoCancellation'' \<mapsto> True]"
             and k = "''voiceIsolation''"]
        supportCheck_records_unsupported
          [where env = browser_grants and c = render_unsupported_mime
             and s = initial_state and w = example_window
             and md = "\<lparr>getDisplayMedia_defined = True,
                        getSupportedConstraints =
                          Some [''deviceId'' \<mapsto> True, ''echoCancellation'' \<mapsto> True]\<rparr>"
             and supported = "[''deviceId'' \<mapsto> True, ''echoCancellation'' \<mapsto> True]"
             and g = example_window and M = "\<lparr>isTypeSupported = (\<lambda>t. t = ''audio/webm'')\<rparr>"
             and opts = "\<lparr>mimeType = Some ''video/mp4''\<rparr>" and mime = "''video/mp4''"]
  by (simp add: supportCheck_def setBrowserSupportError_def ensureConstraintsSupported_def
      read_supported_def object_prototype_keys_def getWindow_def Let_def example_defs)

text \<open>
  C5 as stated fails.  On a page without \<open>mediaDevices\<close>, with \<open>recordScreen\<close> and a MIME type
  the browser lacks, the check throws at line 265 and records nothing.  The key \<open>toString\<close>
  is no member of the supported constraints, and the check records nothing for it, because
  the read of line 355 finds the inherited property.  A check that runs for a later render,
  after a recording has begun, records its error after the acquisition request.  And after
  the check of the first render has recorded an error, \<open>startRecording\<close> of the same
  arguments still makes the request and starts the recorder.
\<close>
theorem supportCheck_throws_accepts_or_follows_request:
  "\<not> isTypeSupported \<lparr>isTypeSupported = (\<lambda>t. t = ''audio/webm'')\<rparr> ''video/mp4''
   \<and> supportCheck browser_insecure render_screen_unsupported_mime initial_state =
       (Some ''TypeError'', initial_state\<lparr>windowRef := Some insecure_window\<rparr>)
   \<and> ''toString''
        \<in> set (object_keys (audio (mediaStreamConstraints (props render_inherited_key))))
   \<and> [''deviceId'' \<mapsto> True, ''echoCancellation'' \<mapsto> True] ''toString'' = None
   \<and> supportCheck browser_grants render_inherited_key initial_state =
       (None, initial_state\<lparr>windowRef := Some example_window\<rparr>)
   \<and> GetUserMedia \<lparr>audio = Boolean True, video = Boolean False\<rparr> \<in> set (trace recording_session)
   \<and> browserSupportError
        (snd (supportCheck browser_grants render_changed_constraints recording_session)) =
       Some ''The following media constraints [voiceIsolation] are not supported on this browser.''
   \<and> browserSupportError
        (snd (supportCheck browser_grants render_unsupported_constraint initial_state)) \<noteq> None
   \<and> trace (snd (startRecording browser_grants render_unsupported_constraint None
                      (snd (supportCheck browser_grants render_unsupported_constraint
                              initial_state)))) =
       [SetStatus Acquiring_media,
        GetUserMedia \<lparr>audio = Object [''echoCancellation'', ''voiceIsolation''],
                      video = Boolean False\<rparr>,
        SetStatus Ready, RecorderStart 0 None, SetStatus Recording, OnStart]"
  by (simp add: recording_session_eq supportCheck_def setBrowserSupportError_def
      ensureConstraintsSupported_def read_supported_def object_prototype_keys_def
      hook_defs example_defs)

end
